theory Spec2Isabelle
  imports Main "HOL-Library.Word"
begin

section \<open>The zone database reload engine of the name server (knot/server/zone-load.c)\<close>

text \<open>
  The embedding follows the C source function by function.  Zones and zone contents are
  heap objects reached through pointers, so the model carries an explicit store: a pointer
  is a natural number, \<open>NULL\<close> is \<open>None\<close>, and two pointers are the same object
  exactly when the numbers are equal.  Functions the file calls but does not define (the
  zone file parser, the journal, the signer, the allocator) are fields of an environment
  record: each is represented by the value it returns.  Dereferencing \<open>NULL\<close> or a
  freed object is a fault, a value of its own, never an unspecified result.
\<close>

subsection \<open>Data\<close>

text \<open>
  The error codes the file names; \<open>KNOT_EMALF\<close> stands for the other failures an
  external call may report.
\<close>

datatype knot_error =
    KNOT_EOK | KNOT_ERROR | KNOT_ENOENT | KNOT_EINVAL | KNOT_ENOMEM
  | KNOT_ERANGE | KNOT_EACCES | KNOT_EZONENOENT | KNOT_EMALF

datatype fault = NullDeref | InvalidPtr

type_synonym dname = string
type_synonym zone_ptr = nat
type_synonym contents_ptr = nat
type_synonym time_t = "64 word"

record zone_t =
  name :: dname
  contents :: "contents_ptr option"
  zonefile_mtime :: time_t
  zonefile_serial :: "32 word"
  server :: "nat option"

text \<open>
  Of \<open>knot_zone_contents_t\<close> the file uses the back pointer \<open>zone\<close>, the SOA serial
  (\<open>knot_zone_serial\<close>), whether the contents are signed
  (\<open>knot_zone_contents_is_signed\<close>) and the result of
  \<open>knot_zone_contents_load_nsec3param\<close>.
\<close>

record knot_zone_contents_t =
  c_zone :: "zone_ptr option"
  c_serial :: "32 word"
  c_signed :: bool
  c_nsec3param :: knot_error

record conf_zone_t =
  conf_name :: string
  conf_file :: string
  xfr_in :: "string list"
  dbsync_timeout :: int

record conf_t =
  zones :: "conf_zone_t list"
  zones_count :: nat

text \<open>The zone database: names are keys, the values are pointers to zones.\<close>

type_synonym knot_zonedb_t = "(dname \<times> zone_ptr) list"

record knot_nameserver_t =
  zone_db :: "knot_zonedb_t option"
  data :: nat
  opt_rr_payload :: nat

text \<open>What the zone file parser delivers for a file: the apex name and the record data.\<close>

record parsed_zone =
  p_name :: dname
  p_serial :: "32 word"
  p_signed :: bool
  p_nsec3param :: knot_error

datatype event =
    Freeze zone_ptr
  | Reset_timers zone_ptr
  | Journal_apply zone_ptr
  | Diff_and_sign zone_ptr bool
  | Schedule_ixfr_sync zone_ptr int
  | Load_nsec3param contents_ptr
  | Warn_edns_payload zone_ptr

record heap =
  zone_heap :: "zone_ptr \<Rightarrow> zone_t option"
  contents_heap :: "contents_ptr \<Rightarrow> knot_zone_contents_t option"
  next_ptr :: nat
  trace :: "event list"

text \<open>
  The environment: the file system as \<open>stat\<close> sees it (the modification time of an
  existing file), and the result of every external call.
\<close>

record env =
  stat :: "string \<Rightarrow> time_t option"
  knot_dname_from_str :: "string \<Rightarrow> dname option"
  zone_new_ok :: "conf_zone_t \<Rightarrow> bool"
  knot_zload_open :: "conf_zone_t \<Rightarrow> knot_error"
  knot_zload_load :: "conf_zone_t \<Rightarrow> parsed_zone option"
  zones_journal_apply :: "dname \<Rightarrow> knot_error"
  zones_do_diff_and_sign :: "conf_zone_t \<Rightarrow> bool \<Rightarrow> knot_error"
  EDNS_MIN_DNSSEC_PAYLOAD :: nat
  knot_zonedb_new_ok :: bool
  pthread_mutex_init_ok :: bool
  dt_optimal_size :: nat
  dt_create_ok :: bool

definition add_event :: "event \<Rightarrow> heap \<Rightarrow> heap" where
  "add_event ev s = s\<lparr>trace := trace s @ [ev]\<rparr>"

subsection \<open>Helpers of the repository that are not in the file\<close>

text \<open>
  Modelled from the spec: \<open>zone_new\<close> (knot/zone/zone.c, absent) "allocates a new Zone
  shell" for a configuration: a zone with the configured name and nothing else, no
  contents, no recorded modification time or serial.  It returns \<open>NULL\<close> when the
  allocation fails.
\<close>

definition zone_new :: "env \<Rightarrow> conf_zone_t \<Rightarrow> heap \<Rightarrow> zone_ptr option \<times> heap" where
  "zone_new e conf s =
     (case knot_dname_from_str e (conf_name conf) of
        None \<Rightarrow> (None, s)
      | Some n \<Rightarrow>
          if \<not> zone_new_ok e conf then (None, s)
          else (Some (next_ptr s),
                s\<lparr>zone_heap := (zone_heap s)(next_ptr s :=
                      Some \<lparr>name = n, contents = None, zonefile_mtime = 0,
                            zonefile_serial = 0, server = None\<rparr>),
                  next_ptr := Suc (next_ptr s)\<rparr>))"

text \<open>
  Modelled from the spec: \<open>zone_deep_free\<close> (absent) releases a zone together with the
  contents it references ("retired Zones and any exclusively-owned ZoneContents
  released"); a zone whose \<open>contents\<close> is \<open>NULL\<close> is released alone.
\<close>

definition zone_deep_free :: "zone_ptr \<Rightarrow> heap \<Rightarrow> heap" where
  "zone_deep_free p s =
     (case zone_heap s p of
        None \<Rightarrow> s
      | Some z \<Rightarrow>
          s\<lparr>zone_heap := (zone_heap s)(p := None),
            contents_heap := (case contents z of
                                None \<Rightarrow> contents_heap s
                              | Some c \<Rightarrow> (contents_heap s)(c := None))\<rparr>)"

text \<open>
  Modelled from the spec: \<open>knot_dname_cmp\<close> (absent) is "exact DNS name equality"; the
  file only tests its result against zero.  The second argument is the result of
  \<open>knot_dname_from_str\<close>, which may be \<open>NULL\<close>.
\<close>

definition knot_dname_cmp :: "dname option \<Rightarrow> dname option \<Rightarrow> int" where
  "knot_dname_cmp a b = (if a = b then 0 else 1)"

text \<open>
  Modelled from the spec: \<open>knot_zonedb_find\<close> (knot/zone/zonedb.c, absent) looks a
  name up in the zone database, a "mapping from zone name to Zone (names unique)"; there
  is no zone for a name that is absent or in a database that is \<open>NULL\<close>.
\<close>

definition knot_zonedb_find :: "knot_zonedb_t option \<Rightarrow> dname \<Rightarrow> zone_ptr option" where
  "knot_zonedb_find db n = (case db of None \<Rightarrow> None | Some d \<Rightarrow> map_of d n)"

text \<open>
  Modelled from the spec: \<open>knot_zonedb_insert\<close> (absent) adds a zone under its name;
  "a name collision at insertion" is its failure: the name is already present and the
  database stays as it is.
\<close>

definition knot_zonedb_insert ::
  "knot_zonedb_t \<Rightarrow> dname \<Rightarrow> zone_ptr \<Rightarrow> knot_error \<times> knot_zonedb_t" where
  "knot_zonedb_insert db n z =
     (if map_of db n \<noteq> None then (KNOT_ERROR, db) else (KNOT_EOK, db @ [(n, z)]))"

text \<open>
  Modelled from the spec: \<open>knot_zonedb_del\<close> (absent) removes the entry of a name from
  the database ("remove that entry from the old database").
\<close>

definition knot_zonedb_del :: "knot_zonedb_t \<Rightarrow> dname \<Rightarrow> knot_zonedb_t" where
  "knot_zonedb_del db n = filter (\<lambda>kv. fst kv \<noteq> n) db"

subsection \<open>zone\_freeze\<close>

definition zone_freeze :: "zone_ptr option \<Rightarrow> heap \<Rightarrow> heap" where
  "zone_freeze zone s = (case zone of None \<Rightarrow> s | Some p \<Rightarrow> add_event (Freeze p) s)"

subsection \<open>Zone file status\<close>

datatype zone_status_t =
    ZONE_STATUS_NOT_FOUND
  | ZONE_STATUS_FOUND_NEW
  | ZONE_STATUS_FOUND_CURRENT
  | ZONE_STATUS_FOUND_UPDATED

definition zone_file_status :: "env \<Rightarrow> zone_t option \<Rightarrow> string \<Rightarrow> zone_status_t" where
  "zone_file_status e old_zone filename =
     (case stat e filename of
        None \<Rightarrow> ZONE_STATUS_NOT_FOUND
      | Some st_mtime \<Rightarrow>
          (case old_zone of
             None \<Rightarrow> ZONE_STATUS_FOUND_NEW
           | Some oz \<Rightarrow>
               if zonefile_mtime oz = st_mtime then ZONE_STATUS_FOUND_CURRENT
               else ZONE_STATUS_FOUND_UPDATED))"

subsection \<open>Building a zone\<close>

definition bootstrap_zone :: "env \<Rightarrow> conf_zone_t \<Rightarrow> heap \<Rightarrow> zone_ptr option \<times> heap" where
  "bootstrap_zone e conf s =
     (let bootstrap = (xfr_in conf \<noteq> []) in
      if \<not> bootstrap then (None, s)
      else (case zone_new e conf s of
              (None, s1) \<Rightarrow> (None, s1)
            | (Some new_zone, s1) \<Rightarrow> (Some new_zone, s1)))"

text \<open>
  \<open>knot_zload_load\<close> returns a freshly allocated zone with its contents: the zone takes
  the next free pointer and the contents the one after.  \<open>knot_zone_serial\<close> of these
  contents is the serial the parser delivered.
\<close>

definition zload_alloc :: "parsed_zone \<Rightarrow> heap \<Rightarrow> heap" where
  "zload_alloc pz s =
     s\<lparr>zone_heap := (zone_heap s)(next_ptr s :=
          Some \<lparr>name = p_name pz, contents = Some (Suc (next_ptr s)), zonefile_mtime = 0,
                zonefile_serial = 0, server = None\<rparr>),
       contents_heap := (contents_heap s)(Suc (next_ptr s) :=
          Some \<lparr>c_zone = Some (next_ptr s), c_serial = p_serial pz,
                c_signed = p_signed pz, c_nsec3param = p_nsec3param pz\<rparr>),
       next_ptr := Suc (Suc (next_ptr s))\<rparr>"

definition set_zonefile_info :: "zone_ptr \<Rightarrow> time_t \<Rightarrow> 32 word \<Rightarrow> heap \<Rightarrow> heap" where
  "set_zonefile_info z mt ser s =
     s\<lparr>zone_heap := (zone_heap s)(z :=
          map_option (\<lambda>r. r\<lparr>zonefile_mtime := mt, zonefile_serial := ser\<rparr>) (zone_heap s z))\<rparr>"

definition load_zone :: "env \<Rightarrow> conf_zone_t \<Rightarrow> heap \<Rightarrow> zone_ptr option \<times> heap" where
  "load_zone e conf s =
     (case knot_zload_open e conf of
        KNOT_EOK \<Rightarrow>
          (case knot_zload_load e conf of
             None \<Rightarrow> (None, s)
           | Some pz \<Rightarrow>
               let zone = next_ptr s;
                   s1 = zload_alloc pz s;
                   dname_req = knot_dname_from_str e (conf_name conf)
               in if knot_dname_cmp (Some (p_name pz)) dname_req \<noteq> 0
                  then (None, zone_deep_free zone s1)
                  else (case stat e (conf_file conf) of
                          None \<Rightarrow> (None, zone_deep_free zone s1)
                        | Some mt \<Rightarrow> (Some zone, set_zonefile_info zone mt (p_serial pz) s1)))
      | KNOT_EACCES \<Rightarrow> (None, s)
      | _ \<Rightarrow> (None, s))"

definition preserve_zone ::
  "env \<Rightarrow> conf_zone_t \<Rightarrow> zone_ptr \<Rightarrow> heap \<Rightarrow> fault + (zone_ptr option \<times> heap)" where
  "preserve_zone e conf old_zone s =
     (case zone_new e conf s of
        (None, s1) \<Rightarrow> Inr (None, s1)
      | (Some new_zone, s1) \<Rightarrow>
          (case (zone_heap s1 old_zone, zone_heap s1 new_zone) of
             (Some oz, Some nz) \<Rightarrow>
               (case contents oz of
                  None \<Rightarrow> Inl NullDeref
                | Some c \<Rightarrow>
                    (case contents_heap s1 c of
                       None \<Rightarrow> Inl InvalidPtr
                     | Some cc \<Rightarrow>
                         Inr (Some new_zone,
                              s1\<lparr>zone_heap := (zone_heap s1)(new_zone :=
                                    Some (nz\<lparr>contents := Some c\<rparr>)),
                                 contents_heap := (contents_heap s1)(c :=
                                    Some (cc\<lparr>c_zone := Some new_zone\<rparr>))\<rparr>)))
           | _ \<Rightarrow> Inl InvalidPtr))"

subsection \<open>create\_zone and update\_zone\<close>

text \<open>
  Reading through a zone pointer: \<open>NULL\<close> gives no zone, a pointer to a freed zone is
  a fault.
\<close>

definition deref_zone :: "heap \<Rightarrow> zone_ptr option \<Rightarrow> fault + zone_t option" where
  "deref_zone s p =
     (case p of
        None \<Rightarrow> Inr None
      | Some q \<Rightarrow> (case zone_heap s q of None \<Rightarrow> Inl InvalidPtr | Some z \<Rightarrow> Inr (Some z)))"

definition set_server :: "zone_ptr \<Rightarrow> nat \<Rightarrow> heap \<Rightarrow> heap" where
  "set_server z d s =
     s\<lparr>zone_heap := (zone_heap s)(z :=
          map_option (\<lambda>r. r\<lparr>server := Some d\<rparr>) (zone_heap s z))\<rparr>"

definition create_zone ::
  "env \<Rightarrow> zone_ptr option \<Rightarrow> conf_zone_t \<Rightarrow> knot_nameserver_t \<Rightarrow> heap
     \<Rightarrow> fault + (zone_ptr option \<times> heap)" where
  "create_zone e old_zone conf ns s =
     (case deref_zone s old_zone of
        Inl f \<Rightarrow> Inl f
      | Inr oz \<Rightarrow>
          (case (case zone_file_status e oz (conf_file conf) of
                   ZONE_STATUS_NOT_FOUND \<Rightarrow> Inr (bootstrap_zone e conf s)
                 | ZONE_STATUS_FOUND_NEW \<Rightarrow> Inr (load_zone e conf s)
                 | ZONE_STATUS_FOUND_UPDATED \<Rightarrow> Inr (load_zone e conf s)
                 | ZONE_STATUS_FOUND_CURRENT \<Rightarrow>
                     (case old_zone of
                        None \<Rightarrow> Inl NullDeref
                      | Some p \<Rightarrow> preserve_zone e conf p s)) of
             Inl f \<Rightarrow> Inl f
           | Inr (None, s1) \<Rightarrow> Inr (None, s1)
           | Inr (Some new_zone, s1) \<Rightarrow>
               Inr (Some new_zone,
                    add_event (Reset_timers new_zone) (set_server new_zone (data ns) s1))))"

text \<open>
  The code of \<open>update_zone\<close> from the label \<open>fail\<close> on: the result is handed out on
  success; otherwise recycled contents are bound back to the old zone and the new zone is
  freed.
\<close>

definition update_zone_fail ::
  "knot_error \<Rightarrow> zone_ptr \<Rightarrow> zone_ptr option \<Rightarrow> bool \<Rightarrow> heap
     \<Rightarrow> fault + (knot_error \<times> zone_ptr option \<times> heap)" where
  "update_zone_fail result new_zone old_zone new_content s =
     (if result = KNOT_EOK then Inr (result, Some new_zone, s)
      else if \<not> new_content then
        (case old_zone of
           None \<Rightarrow> Inl NullDeref
         | Some op \<Rightarrow>
             (case (zone_heap s op, zone_heap s new_zone) of
                (Some oz, Some nz) \<Rightarrow>
                  (case contents oz of
                     None \<Rightarrow> Inl NullDeref
                   | Some c \<Rightarrow>
                       (case contents_heap s c of
                          None \<Rightarrow> Inl InvalidPtr
                        | Some cc \<Rightarrow>
                            Inr (result, None,
                                 zone_deep_free new_zone
                                   (s\<lparr>contents_heap := (contents_heap s)(c :=
                                         Some (cc\<lparr>c_zone := Some op\<rparr>)),
                                      zone_heap := (zone_heap s)(new_zone :=
                                         Some (nz\<lparr>contents := None\<rparr>))\<rparr>))))
              | _ \<Rightarrow> Inl InvalidPtr))
      else Inr (result, None, zone_deep_free new_zone s))"

definition update_zone ::
  "env \<Rightarrow> zone_ptr option \<Rightarrow> conf_zone_t \<Rightarrow> knot_nameserver_t \<Rightarrow> heap
     \<Rightarrow> fault + (knot_error \<times> zone_ptr option \<times> heap)" where
  "update_zone e old_zone conf ns s =
     (case create_zone e old_zone conf ns s of
        Inl f \<Rightarrow> Inl f
      | Inr (None, s1) \<Rightarrow> Inr (KNOT_EZONENOENT, None, s1)
      | Inr (Some new_zone, s1) \<Rightarrow>
          (case (deref_zone s1 old_zone, zone_heap s1 new_zone) of
             (Inr oz, Some nz) \<Rightarrow>
               let new_content =
                     (case oz of None \<Rightarrow> True | Some ozr \<Rightarrow> contents ozr \<noteq> contents nz);
                   result = zones_journal_apply e (name nz);
                   s2 = add_event (Journal_apply new_zone) s1
               in if result \<noteq> KNOT_EOK \<and> result \<noteq> KNOT_ERANGE \<and> result \<noteq> KNOT_ENOENT
                  then update_zone_fail result new_zone old_zone new_content s2
                  else
                    let result = zones_do_diff_and_sign e conf new_content;
                        s3 = add_event (Diff_and_sign new_zone new_content) s2
                    in if result \<noteq> KNOT_EOK
                       then update_zone_fail result new_zone old_zone new_content s3
                       else
                         let s4 = set_server new_zone (data ns) s3;
                             s5 = add_event
                                    (Schedule_ixfr_sync new_zone (dbsync_timeout conf)) s4
                         in (case contents nz of
                               None \<Rightarrow>
                                 update_zone_fail result new_zone old_zone new_content s5
                             | Some c \<Rightarrow>
                                 (case contents_heap s5 c of
                                    None \<Rightarrow> Inl InvalidPtr
                                  | Some cc \<Rightarrow>
                                      let result = c_nsec3param cc;
                                          s6 = add_event (Load_nsec3param c) s5
                                      in if result \<noteq> KNOT_EOK
                                         then update_zone_fail result new_zone old_zone
                                                new_content s6
                                         else
                                           update_zone_fail result new_zone old_zone
                                             new_content
                                             (if c_signed cc \<and>
                                                 opt_rr_payload ns < EDNS_MIN_DNSSEC_PAYLOAD e
                                              then add_event (Warn_edns_payload new_zone) s6
                                              else s6)))
           | _ \<Rightarrow> Inl InvalidPtr))"

subsection \<open>The loader\<close>

text \<open>
  The branch of \<open>zone_loader_thread\<close> taken when the insertion fails: contents shared
  with the old zone are bound back to it, then the new zone is freed.
\<close>

definition insert_failed ::
  "zone_ptr option \<Rightarrow> zone_ptr \<Rightarrow> heap \<Rightarrow> fault + heap" where
  "insert_failed old_zone zone s =
     (case (deref_zone s old_zone, zone_heap s zone) of
        (Inr ozo, Some zr) \<Rightarrow>
          (case ozo of
             None \<Rightarrow> Inr (zone_deep_free zone s)
           | Some oz \<Rightarrow>
               if contents oz = contents zr then
                 (case contents oz of
                    None \<Rightarrow> Inl NullDeref
                  | Some c \<Rightarrow>
                      (case contents_heap s c of
                         None \<Rightarrow> Inl InvalidPtr
                       | Some cc \<Rightarrow>
                           Inr (zone_deep_free zone
                                  (s\<lparr>contents_heap := (contents_heap s)(c :=
                                        Some (cc\<lparr>c_zone := old_zone\<rparr>)),
                                     zone_heap := (zone_heap s)(zone :=
                                        Some (zr\<lparr>contents := None\<rparr>))\<rparr>))))
               else Inr (zone_deep_free zone s))
      | _ \<Rightarrow> Inl InvalidPtr)"

text \<open>
  One round of the \<open>for(;;)\<close> loop of \<open>zone_loader_thread\<close> for the configuration
  taken from the head of the list.  The first component of the result is the value the
  thread returns when it leaves the loop in this round, \<open>None\<close> when it goes on.
\<close>

definition loader_iteration ::
  "env \<Rightarrow> knot_nameserver_t \<Rightarrow> conf_zone_t \<Rightarrow> knot_zonedb_t \<Rightarrow> heap
     \<Rightarrow> fault + (knot_error option \<times> knot_zonedb_t \<times> heap)" where
  "loader_iteration e ns zone_config db_new s =
     (case knot_dname_from_str e (conf_name zone_config) of
        None \<Rightarrow> Inr (Some KNOT_ENOMEM, db_new, s)
      | Some apex \<Rightarrow>
          let old_zone = knot_zonedb_find (zone_db ns) apex;
              s1 = zone_freeze old_zone s
          in (case update_zone e old_zone zone_config ns s1 of
                Inl f \<Rightarrow> Inl f
              | Inr (ret, zone, s2) \<Rightarrow>
                  if ret = KNOT_EOK then
                    (case zone of
                       None \<Rightarrow> Inl NullDeref
                     | Some z \<Rightarrow>
                         (case zone_heap s2 z of
                            None \<Rightarrow> Inl InvalidPtr
                          | Some zr \<Rightarrow>
                              let ins = knot_zonedb_insert db_new (name zr) z
                              in if fst ins \<noteq> KNOT_EOK then
                                   (case insert_failed old_zone z s2 of
                                      Inl f \<Rightarrow> Inl f
                                    | Inr s3 \<Rightarrow> Inr (None, db_new, s3))
                                 else Inr (None, snd ins, s2)))
                  else Inr (None, db_new, s2)))"

text \<open>
  One worker: it takes the configurations from the shared list one by one until the list
  is empty or a round makes it return.  A worker holds the lock whenever it touches the
  list or the new database, and it is always started with its context (\<open>thread\<close> and
  \<open>thread->data\<close> are not \<open>NULL\<close>).
\<close>

fun zone_loader_thread ::
  "env \<Rightarrow> knot_nameserver_t \<Rightarrow> conf_zone_t list \<Rightarrow> knot_zonedb_t \<Rightarrow> heap
     \<Rightarrow> fault + (knot_error \<times> knot_zonedb_t \<times> heap)" where
  "zone_loader_thread e ns [] db_new s = Inr (KNOT_EOK, db_new, s)"
| "zone_loader_thread e ns (zone_config # rest) db_new s =
     (case loader_iteration e ns zone_config db_new s of
        Inl f \<Rightarrow> Inl f
      | Inr (Some r, db', s') \<Rightarrow> Inr (r, db', s')
      | Inr (None, db', s') \<Rightarrow> zone_loader_thread e ns rest db' s')"

text \<open>
  The shared list as the worker leaves it: empty, or what follows the configuration in
  whose round the worker returned (that configuration has been taken off the list).
\<close>

fun zone_loader_left ::
  "env \<Rightarrow> knot_nameserver_t \<Rightarrow> conf_zone_t list \<Rightarrow> knot_zonedb_t \<Rightarrow> heap
     \<Rightarrow> conf_zone_t list" where
  "zone_loader_left e ns [] db_new s = []"
| "zone_loader_left e ns (zone_config # rest) db_new s =
     (case loader_iteration e ns zone_config db_new s of
        Inr (None, db', s') \<Rightarrow> zone_loader_left e ns rest db' s'
      | _ \<Rightarrow> rest)"

text \<open>
  The unit of \<open>thread_count\<close> workers that \<open>load_zonedb\<close> starts and joins, in the
  schedule where each worker runs until it returns before the next one starts.  A worker
  that finds the list empty returns at once, so the workers after the first matter only
  when a worker has returned early and left configurations on the list.  The values the
  workers return are not read.
\<close>

fun dt_unit_run ::
  "env \<Rightarrow> knot_nameserver_t \<Rightarrow> nat \<Rightarrow> conf_zone_t list \<Rightarrow> knot_zonedb_t \<Rightarrow> heap
     \<Rightarrow> fault + (knot_zonedb_t \<times> heap)" where
  "dt_unit_run e ns 0 queue db_new s = Inr (db_new, s)"
| "dt_unit_run e ns (Suc n) queue db_new s =
     (case zone_loader_thread e ns queue db_new s of
        Inl f \<Rightarrow> Inl f
      | Inr (r, db', s') \<Rightarrow> dt_unit_run e ns n (zone_loader_left e ns queue db_new s) db' s')"

definition load_zonedb ::
  "env \<Rightarrow> knot_nameserver_t \<Rightarrow> conf_t \<Rightarrow> heap \<Rightarrow> fault + (knot_zonedb_t option \<times> heap)" where
  "load_zonedb e ns conf s =
     (if \<not> knot_zonedb_new_ok e then Inr (None, s)
      else if zones_count conf = 0 then Inr (Some [], s)
      else if \<not> pthread_mutex_init_ok e then Inr (None, s)
      else
        let thread_count = min (zones_count conf) (dt_optimal_size e)
        in if dt_create_ok e then
             (case dt_unit_run e ns thread_count (zones conf) [] s of
                Inl f \<Rightarrow> Inl f
              | Inr (db_new, s') \<Rightarrow> Inr (Some db_new, s'))
           else Inr (None, s))"

subsection \<open>Removing the zones of the new database from the old one\<close>

text \<open>
  The iterator runs over the entries of the new database; the name of a zone in the
  database is the key it was inserted under.
\<close>

fun remove_zones_iter :: "(dname \<times> zone_ptr) list \<Rightarrow> knot_zonedb_t \<Rightarrow> knot_zonedb_t" where
  "remove_zones_iter [] db_old = db_old"
| "remove_zones_iter ((zone_name, new_zone) # it) db_old =
     (let old_zone = knot_zonedb_find (Some db_old) zone_name
      in remove_zones_iter it
           (if old_zone = Some new_zone then knot_zonedb_del db_old zone_name else db_old))"

definition remove_zones :: "knot_zonedb_t \<Rightarrow> knot_zonedb_t \<Rightarrow> knot_error \<times> knot_zonedb_t" where
  "remove_zones db_new db_old = (KNOT_EOK, remove_zones_iter db_new db_old)"

subsection \<open>The entry point\<close>

text \<open>
  The arguments \<open>conf\<close> and \<open>ns\<close> may be \<open>NULL\<close>.  The third argument is the value
  at \<open>*db_old\<close>; the result carries the return code, the name server, the value at
  \<open>*db_old\<close> and the heap.
\<close>

definition zones_update_db_from_config ::
  "env \<Rightarrow> conf_t option \<Rightarrow> knot_nameserver_t option \<Rightarrow> knot_zonedb_t option \<Rightarrow> heap
     \<Rightarrow> fault + (knot_error \<times> knot_nameserver_t option \<times> knot_zonedb_t option \<times> heap)" where
  "zones_update_db_from_config e conf ns db_old s =
     (case (conf, ns) of
        (Some cf, Some n) \<Rightarrow>
          (case zone_db n of
             None \<Rightarrow> Inr (KNOT_ENOENT, ns, db_old, s)
           | Some live \<Rightarrow>
               (case load_zonedb e n cf s of
                  Inl f \<Rightarrow> Inl f
                | Inr (None, s1) \<Rightarrow> Inr (KNOT_ENOMEM, ns, db_old, s1)
                | Inr (Some db_new, s1) \<Rightarrow>
                    let r = remove_zones db_new live
                    in if fst r \<noteq> KNOT_EOK
                       then Inr (fst r, Some (n\<lparr>zone_db := Some db_new\<rparr>), Some (snd r), s1)
                       else Inr (KNOT_EOK, Some (n\<lparr>zone_db := Some db_new\<rparr>),
                                 Some (snd r), s1)))
      | _ \<Rightarrow> Inr (KNOT_EINVAL, ns, db_old, s))"

section \<open>Notions used in the statements\<close>

text \<open>The result of \<open>update_zone\<close> with the trace of external calls in place of the heap.\<close>

definition update_view ::
  "fault + (knot_error \<times> zone_ptr option \<times> heap)
     \<Rightarrow> fault + (knot_error \<times> zone_ptr option \<times> event list)" where
  "update_view r = (case r of Inl f \<Rightarrow> Inl f | Inr (c, dst, s) \<Rightarrow> Inr (c, dst, trace s))"

text \<open>The journal results after which \<open>update_zone\<close> goes on.\<close>

definition tolerated :: "knot_error \<Rightarrow> bool" where
  "tolerated j \<longleftrightarrow> j = KNOT_EOK \<or> j = KNOT_ERANGE \<or> j = KNOT_ENOENT"

text \<open>
  The heap \<open>st\<close> has the allocation pointer and the contents of \<open>s1\<close>, the zones
  of \<open>s1\<close> other than \<open>nz\<close>, and a zone \<open>nz\<close> that references the same contents
  as \<open>zr\<close>.
\<close>

definition same_objects :: "zone_ptr \<Rightarrow> zone_t \<Rightarrow> heap \<Rightarrow> heap \<Rightarrow> bool" where
  "same_objects nz zr s1 st \<longleftrightarrow>
     next_ptr st = next_ptr s1 \<and>
     contents_heap st = contents_heap s1 \<and>
     (\<forall>p. p \<noteq> nz \<longrightarrow> zone_heap st p = zone_heap s1 p) \<and>
     (\<exists>zr'. zone_heap st nz = Some zr' \<and> contents zr' = contents zr)"

text \<open>
  What a caller of \<open>zones_update_db_from_config\<close> observes: the return code, the live
  database of the name server and the database handed back through \<open>db_old\<close>; and
  the zone or contents behind a pointer afterwards.
\<close>

definition reload_view ::
  "fault + (knot_error \<times> knot_nameserver_t option \<times> knot_zonedb_t option \<times> heap)
     \<Rightarrow> fault + (knot_error \<times> knot_zonedb_t option \<times> knot_zonedb_t option)" where
  "reload_view r =
     (case r of
        Inl f \<Rightarrow> Inl f
      | Inr (c, ns, db_old, s) \<Rightarrow>
          Inr (c, (case ns of None \<Rightarrow> None | Some n \<Rightarrow> zone_db n), db_old))"

definition reload_zone ::
  "fault + (knot_error \<times> knot_nameserver_t option \<times> knot_zonedb_t option \<times> heap)
     \<Rightarrow> zone_ptr \<Rightarrow> zone_t option" where
  "reload_zone r p = (case r of Inl f \<Rightarrow> None | Inr (c, ns, db_old, s) \<Rightarrow> zone_heap s p)"

definition reload_contents ::
  "fault + (knot_error \<times> knot_nameserver_t option \<times> knot_zonedb_t option \<times> heap)
     \<Rightarrow> contents_ptr \<Rightarrow> knot_zone_contents_t option" where
  "reload_contents r p =
     (case r of Inl f \<Rightarrow> None | Inr (c, ns, db_old, s) \<Rightarrow> contents_heap s p)"

text \<open>Two reload cycles in a row with equal configurations, the second on the result of the first.\<close>

definition reload_twice ::
  "env \<Rightarrow> conf_t \<Rightarrow> knot_nameserver_t \<Rightarrow> heap
     \<Rightarrow> fault + (knot_error \<times> knot_nameserver_t option \<times> knot_zonedb_t option \<times> heap)" where
  "reload_twice e conf ns s =
     (case zones_update_db_from_config e (Some conf) (Some ns) None s of
        Inl f \<Rightarrow> Inl f
      | Inr (c, ns1, db_old, s1) \<Rightarrow> zones_update_db_from_config e (Some conf) ns1 None s1)"

section \<open>Concrete inputs\<close>

text \<open>
  A server with two loaded zones: \<open>a\<close> (zone 1, contents 2) and \<open>b\<close> (zone 3,
  contents 4), both loaded when their files had modification time 100.  Now \<open>a.zone\<close>
  still has modification time 100, \<open>b.zone\<close> has 200 and \<open>c.zone\<close> does not exist.
  The platform recommends four worker threads.
\<close>

definition env_demo :: env where
  "env_demo =
     \<lparr>stat = (\<lambda>f. if f = ''a.zone'' then Some 100
                  else if f = ''b.zone'' then Some 200 else None),
      knot_dname_from_str = Some,
      zone_new_ok = (\<lambda>c. True),
      knot_zload_open = (\<lambda>c. KNOT_EOK),
      knot_zload_load = (\<lambda>c. Some \<lparr>p_name = conf_name c, p_serial = 7, p_signed = False,
                                     p_nsec3param = KNOT_EOK\<rparr>),
      zones_journal_apply = (\<lambda>n. KNOT_ENOENT),
      zones_do_diff_and_sign = (\<lambda>c b. KNOT_EOK),
      EDNS_MIN_DNSSEC_PAYLOAD = 1220,
      knot_zonedb_new_ok = True,
      pthread_mutex_init_ok = True,
      dt_optimal_size = 4,
      dt_create_ok = True\<rparr>"

definition heap_demo :: heap where
  "heap_demo =
     \<lparr>zone_heap = (\<lambda>p. None)
        (1 := Some \<lparr>name = ''a'', contents = Some 2, zonefile_mtime = 100,
                     zonefile_serial = 1, server = Some 0\<rparr>,
         3 := Some \<lparr>name = ''b'', contents = Some 4, zonefile_mtime = 100,
                     zonefile_serial = 1, server = Some 0\<rparr>),
      contents_heap = (\<lambda>p. None)
        (2 := Some \<lparr>c_zone = Some 1, c_serial = 1, c_signed = False,
                     c_nsec3param = KNOT_EOK\<rparr>,
         4 := Some \<lparr>c_zone = Some 3, c_serial = 1, c_signed = False,
                     c_nsec3param = KNOT_EOK\<rparr>),
      next_ptr = 5,
      trace = []\<rparr>"

definition conf_a :: conf_zone_t where
  "conf_a = \<lparr>conf_name = ''a'', conf_file = ''a.zone'', xfr_in = [], dbsync_timeout = 0\<rparr>"

definition conf_b :: conf_zone_t where
  "conf_b = \<lparr>conf_name = ''b'', conf_file = ''b.zone'', xfr_in = [], dbsync_timeout = 0\<rparr>"

definition conf_c :: conf_zone_t where
  "conf_c = \<lparr>conf_name = ''c'', conf_file = ''c.zone'', xfr_in = [''master''],
             dbsync_timeout = 0\<rparr>"

definition conf_demo :: conf_t where
  "conf_demo = \<lparr>zones = [conf_a, conf_b, conf_c], zones_count = 3\<rparr>"

definition ns_demo :: knot_nameserver_t where
  "ns_demo = \<lparr>zone_db = Some [(''a'', 1), (''b'', 3)], data = 0, opt_rr_payload = 4096\<rparr>"

text \<open>The same server when no zone can be allocated.\<close>

definition env_nomem :: env where
  "env_nomem = env_demo\<lparr>zone_new_ok := (\<lambda>c. False)\<rparr>"


text \<open>A zone with neither a file nor a transfer-in source.\<close>

definition conf_d :: conf_zone_t where
  "conf_d = \<lparr>conf_name = ''d'', conf_file = ''d.zone'', xfr_in = [], dbsync_timeout = 0\<rparr>"

text \<open>The same server when the parsed zones are signed and carry an unusable NSEC3PARAM.\<close>

definition env_nsec3 :: env where
  "env_nsec3 =
     env_demo\<lparr>knot_zload_load := (\<lambda>c. Some \<lparr>p_name = conf_name c, p_serial = 7,
                                              p_signed = True, p_nsec3param = KNOT_EMALF\<rparr>)\<rparr>"

text \<open>The same server when the signer fails, and when the journal fails.\<close>

definition env_sign :: env where
  "env_sign = env_demo\<lparr>zones_do_diff_and_sign := (\<lambda>c b. KNOT_ERROR)\<rparr>"

definition env_journal :: env where
  "env_journal = env_demo\<lparr>zones_journal_apply := (\<lambda>n. KNOT_EMALF)\<rparr>"

text \<open>Signed zones with a usable NSEC3PARAM, and a name server with a small EDNS payload.\<close>

definition env_signed :: env where
  "env_signed =
     env_demo\<lparr>knot_zload_load := (\<lambda>c. Some \<lparr>p_name = conf_name c, p_serial = 7,
                                              p_signed = True, p_nsec3param = KNOT_EOK\<rparr>)\<rparr>"

definition ns_small :: knot_nameserver_t where
  "ns_small = ns_demo\<lparr>opt_rr_payload := 512\<rparr>"


text \<open>A configuration with the zone \<open>a\<close> alone.\<close>

definition conf_only_a :: conf_t where
  "conf_only_a = \<lparr>zones = [conf_a], zones_count = 1\<rparr>"

text \<open>
  The same server when the name \<open>bad\<close> cannot be converted, and a configuration that
  lists a zone of that name before the zone \<open>a\<close>.
\<close>

definition env_badname :: env where
  "env_badname = env_demo\<lparr>knot_dname_from_str := (\<lambda>n. if n = ''bad'' then None else Some n)\<rparr>"

definition conf_bad_a :: conf_t where
  "conf_bad_a =
     \<lparr>zones = [\<lparr>conf_name = ''bad'', conf_file = ''bad.zone'', xfr_in = [], dbsync_timeout = 0\<rparr>,
               conf_a],
      zones_count = 2\<rparr>"

text \<open>
  A server whose only zone \<open>c\<close> was bootstrapped and has received no contents yet, and
  a configuration with the zone \<open>c\<close> alone.
\<close>

definition heap_boot :: heap where
  "heap_boot =
     \<lparr>zone_heap = (\<lambda>p. None)
        (1 := Some \<lparr>name = ''c'', contents = None, zonefile_mtime = 0,
                     zonefile_serial = 0, server = Some 0\<rparr>),
      contents_heap = (\<lambda>p. None),
      next_ptr = 2,
      trace = []\<rparr>"

definition ns_boot :: knot_nameserver_t where
  "ns_boot = \<lparr>zone_db = Some [(''c'', 1)], data = 0, opt_rr_payload = 4096\<rparr>"

definition conf_only_c :: conf_t where
  "conf_only_c = \<lparr>zones = [conf_c], zones_count = 1\<rparr>"

lemmas demo_defs = env_demo_def heap_demo_def conf_a_def conf_b_def conf_c_def conf_demo_def
  ns_demo_def

lemmas model_defs = update_zone_def create_zone_def deref_zone_def zone_file_status_def
  bootstrap_zone_def load_zone_def preserve_zone_def zone_new_def zload_alloc_def
  set_zonefile_info_def knot_dname_cmp_def set_server_def add_event_def update_zone_fail_def
  zone_deep_free_def zone_freeze_def knot_zonedb_find_def knot_zonedb_insert_def
  loader_iteration_def insert_failed_def Let_def

lemma dt_unit_run_numeral:
  "dt_unit_run e ns (numeral k) queue db_new s =
     (case zone_loader_thread e ns queue db_new s of
        Inl f \<Rightarrow> Inl f
      | Inr (r, db', s') \<Rightarrow>
          dt_unit_run e ns (pred_numeral k) (zone_loader_left e ns queue db_new s) db' s')"
  by (simp add: numeral_eq_Suc)

lemmas reload_defs = zones_update_db_from_config_def load_zonedb_def remove_zones_def
  dt_unit_run_numeral
  knot_zonedb_del_def reload_view_def reload_zone_def reload_contents_def

section \<open>Auxiliary facts\<close>

lemma zone_freeze_heaps [simp]:
  "zone_heap (zone_freeze z s) = zone_heap s"
  "contents_heap (zone_freeze z s) = contents_heap s"
  "next_ptr (zone_freeze z s) = next_ptr s"
  by (simp_all add: zone_freeze_def add_event_def split: option.splits)

lemma deref_zone_freeze [simp]: "deref_zone (zone_freeze z s) p = deref_zone s p"
  by (simp add: deref_zone_def split: option.splits)

lemma zone_new_None: "fst (zone_new e conf s) = None \<Longrightarrow> zone_new e conf s = (None, s)"
  by (auto simp: zone_new_def split: option.splits if_splits)

lemma zone_new_Some:
  "zone_new e conf s = (Some z, s') \<Longrightarrow>
     z = next_ptr s \<and> (\<exists>zr. zone_heap s' z = Some zr \<and> contents zr = None) \<and>
     contents_heap s' = contents_heap s"
  by (auto simp: zone_new_def split: option.splits if_splits)

lemma create_zone_not_found:
  assumes "stat e (conf_file conf) = None" and "deref_zone s old_zone = Inr oz"
  shows "create_zone e old_zone conf ns s =
           (case bootstrap_zone e conf s of
              (None, s1) \<Rightarrow> Inr (None, s1)
            | (Some z, s1) \<Rightarrow> Inr (Some z, add_event (Reset_timers z) (set_server z (data ns) s1)))"
  using assms by (simp add: create_zone_def zone_file_status_def split: prod.splits option.splits)

lemma loader_iteration_update_failed:
  assumes "knot_dname_from_str e (conf_name c) = Some apex"
    and "update_zone e (knot_zonedb_find (zone_db ns) apex) c ns
           (zone_freeze (knot_zonedb_find (zone_db ns) apex) s) = Inr (r, z, s2)"
    and "r \<noteq> KNOT_EOK"
  shows "loader_iteration e ns c db s = Inr (None, db, s2)"
  using assms by (simp add: loader_iteration_def Let_def)

lemma zone_loader_thread_continues:
  "loader_iteration e ns c db s = Inr (None, db', s') \<Longrightarrow>
   zone_loader_thread e ns (c # rest) db s = zone_loader_thread e ns rest db' s'"
  by simp








lemma trace_zone_deep_free [simp]: "trace (zone_deep_free p s) = trace s"
  by (simp add: zone_deep_free_def split: option.splits)

lemma trace_add_event [simp]: "trace (add_event ev s) = trace s @ [ev]"
  by (simp add: add_event_def)

lemma trace_set_server [simp]: "trace (set_server z d s) = trace s"
  by (simp add: set_server_def)

lemma heaps_add_event [simp]:
  "zone_heap (add_event ev s) = zone_heap s"
  "contents_heap (add_event ev s) = contents_heap s"
  "next_ptr (add_event ev s) = next_ptr s"
  by (simp_all add: add_event_def)

lemma contents_heap_set_server [simp]: "contents_heap (set_server z d s) = contents_heap s"
  by (simp add: set_server_def)

lemma update_zone_fail_result:
  assumes "update_zone_fail r nz old nc s = Inr (r', dst, s')"
  shows "r' = r \<and> dst = (if r = KNOT_EOK then Some nz else None) \<and> trace s' = trace s"
  using assms
  by (auto simp: update_zone_fail_def split: if_splits option.splits prod.splits)

lemma next_ptr_zone_deep_free [simp]: "next_ptr (zone_deep_free p s) = next_ptr s"
  by (simp add: zone_deep_free_def split: option.splits)

lemma next_ptr_set_server [simp]: "next_ptr (set_server z d s) = next_ptr s"
  by (simp add: set_server_def)

lemma zone_heap_set_server:
  "zone_heap (set_server z d s) p =
     (if p = z then map_option (\<lambda>r. r\<lparr>server := Some d\<rparr>) (zone_heap s z) else zone_heap s p)"
  by (simp add: set_server_def)

lemma same_objects_refl: "zone_heap s1 nz = Some zr \<Longrightarrow> same_objects nz zr s1 s1"
  by (simp add: same_objects_def)

lemma same_objects_add_event [simp]:
  "same_objects nz zr s1 (add_event ev st) = same_objects nz zr s1 st"
  by (simp add: same_objects_def)

lemma same_objects_set_server:
  "same_objects nz zr s1 st \<Longrightarrow> same_objects nz zr s1 (set_server nz d st)"
  by (auto simp: same_objects_def zone_heap_set_server)

lemma update_zone_failure_point:
  assumes cz: "create_zone e old_zone conf ns s = Inr (Some nz, s1)"
    and nzr: "zone_heap s1 nz = Some zr"
    and uz: "update_zone e old_zone conf ns s = Inr (r, dst, s')"
  shows "\<exists>oz st. deref_zone s1 old_zone = Inr oz \<and> same_objects nz zr s1 st \<and>
           update_zone_fail r nz old_zone
             (case oz of None \<Rightarrow> True | Some ozr \<Rightarrow> contents ozr \<noteq> contents zr) st
           = Inr (r, dst, s')"
proof -
  from uz obtain oz where deref: "deref_zone s1 old_zone = Inr oz"
    by (cases "deref_zone s1 old_zone") (simp_all add: update_zone_def cz nzr)
  define nc where "nc = (case oz of None \<Rightarrow> True | Some ozr \<Rightarrow> contents ozr \<noteq> contents zr)"
  define s3 where "s3 = add_event (Diff_and_sign nz nc) (add_event (Journal_apply nz) s1)"
  define s5 where "s5 = add_event (Schedule_ixfr_sync nz (dbsync_timeout conf))
                          (set_server nz (data ns) s3)"
  have so: "same_objects nz zr s1 s1"
    by (rule same_objects_refl [OF nzr])
  have so3: "same_objects nz zr s1 s3"
    by (simp add: s3_def so)
  have so5: "same_objects nz zr s1 s5"
    by (simp add: s5_def same_objects_set_server [OF so3])
  have "\<exists>rr st. same_objects nz zr s1 st \<and> update_zone_fail rr nz old_zone nc st = Inr (r, dst, s')"
  proof (cases "tolerated (zones_journal_apply e (name zr))")
    case False
    with uz have "update_zone_fail (zones_journal_apply e (name zr)) nz old_zone nc
                    (add_event (Journal_apply nz) s1) = Inr (r, dst, s')"
      by (simp add: update_zone_def cz nzr deref Let_def tolerated_def nc_def)
    moreover have "same_objects nz zr s1 (add_event (Journal_apply nz) s1)"
      by (simp add: so)
    ultimately show ?thesis by blast
  next
    case tol: True
    show ?thesis
    proof (cases "zones_do_diff_and_sign e conf nc = KNOT_EOK")
      case False
      with tol uz have "update_zone_fail (zones_do_diff_and_sign e conf nc) nz old_zone nc s3
                          = Inr (r, dst, s')"
        by (auto simp: update_zone_def cz nzr deref Let_def tolerated_def nc_def s3_def)
      with so3 show ?thesis by blast
    next
      case signed: True
      show ?thesis
      proof (cases "contents zr")
        case None
        with tol signed uz have "update_zone_fail KNOT_EOK nz old_zone nc s5 = Inr (r, dst, s')"
          by (auto simp: update_zone_def cz nzr deref Let_def tolerated_def nc_def s3_def s5_def)
        with so5 show ?thesis by blast
      next
        case (Some c)
        with tol signed uz obtain cc where cc: "contents_heap s1 c = Some cc"
          by (cases "contents_heap s1 c")
             (auto simp: update_zone_def cz nzr deref Let_def tolerated_def nc_def)
        define s6 where "s6 = add_event (Load_nsec3param c) s5"
        have so6: "same_objects nz zr s1 s6"
          by (simp add: s6_def so5)
        have so7: "same_objects nz zr s1 (add_event (Warn_edns_payload nz) s6)"
          by (simp add: so6)
        from Some cc tol signed uz
        have "update_zone_fail (c_nsec3param cc) nz old_zone nc s6 = Inr (r, dst, s') \<or>
              update_zone_fail (c_nsec3param cc) nz old_zone nc
                (add_event (Warn_edns_payload nz) s6) = Inr (r, dst, s')"
          by (auto simp: update_zone_def cz nzr deref Let_def tolerated_def nc_def s3_def
                s5_def s6_def split: if_splits)
        with so6 so7 show ?thesis by blast
      qed
    qed
  qed
  then obtain rr st where st: "same_objects nz zr s1 st"
      and f: "update_zone_fail rr nz old_zone nc st = Inr (r, dst, s')"
    by blast
  from update_zone_fail_result [OF f] have "rr = r" by simp
  with st f deref show ?thesis
    unfolding nc_def by blast
qed

lemma update_zone_fail_reused:
  assumes f: "update_zone_fail r nz (Some op) False st = Inr (r', dst, s')"
    and fail: "r \<noteq> KNOT_EOK" and ne: "op \<noteq> nz"
    and old: "zone_heap st op = Some ozr" and c: "contents ozr = Some c"
  shows "dst = None \<and> zone_heap s' nz = None \<and> zone_heap s' op = Some ozr \<and>
         (\<exists>cc. contents_heap s' c = Some cc \<and> c_zone cc = Some op)"
  using assms
  by (auto simp: update_zone_fail_def zone_deep_free_def split: option.splits)

lemma update_zone_fail_fresh:
  assumes f: "update_zone_fail r nz old_zone True st = Inr (r', dst, s')"
    and fail: "r \<noteq> KNOT_EOK"
    and new: "zone_heap st nz = Some zr'" and c: "contents zr' = Some c"
  shows "dst = None \<and> zone_heap s' nz = None \<and> contents_heap s' c = None"
  using assms
  by (auto simp: update_zone_fail_def zone_deep_free_def split: option.splits)

lemma zone_deep_free_gone [simp]: "zone_heap (zone_deep_free z s) z = None"
  by (simp add: zone_deep_free_def split: option.splits)

lemma insert_failed_frees:
  "insert_failed old_zone z s = Inr s' \<Longrightarrow> zone_heap s' z = None"
  by (auto simp: insert_failed_def split: sum.splits option.splits if_splits)





lemma update_zone_fail_returns:
  assumes "zone_heap st nz = Some zr'"
    and "nc \<or> (\<exists>op ozr c cc. old_zone = Some op \<and> zone_heap st op = Some ozr \<and>
                  contents ozr = Some c \<and> contents_heap st c = Some cc)"
  shows "\<exists>dst s'. update_zone_fail r nz old_zone nc st = Inr (r, dst, s')"
  using assms by (auto simp: update_zone_fail_def)

section \<open>The classifier\<close>

text \<open>
  Claim C6.  For every previous zone (possibly none) and file name, \<open>zone_file_status\<close>
  returns \<open>NOT_FOUND\<close> when \<open>stat\<close> fails, else \<open>FOUND_NEW\<close> when there is no
  previous zone, else \<open>FOUND_CURRENT\<close> when the recorded modification time equals
  that of the file, else \<open>FOUND_UPDATED\<close>.  The function takes no heap and returns
  nothing but the status: it depends on the file system and the previous zone only.
\<close>

theorem zone_file_status_classifies:
  "(stat e filename = None \<longrightarrow>
      zone_file_status e old_zone filename = ZONE_STATUS_NOT_FOUND) \<and>
   (stat e filename \<noteq> None \<and> old_zone = None \<longrightarrow>
      zone_file_status e old_zone filename = ZONE_STATUS_FOUND_NEW) \<and>
   (\<forall>oz. old_zone = Some oz \<and> stat e filename = Some (zonefile_mtime oz) \<longrightarrow>
      zone_file_status e old_zone filename = ZONE_STATUS_FOUND_CURRENT) \<and>
   (\<forall>oz mt. old_zone = Some oz \<and> stat e filename = Some mt \<and> zonefile_mtime oz \<noteq> mt \<longrightarrow>
      zone_file_status e old_zone filename = ZONE_STATUS_FOUND_UPDATED)"
  by (auto simp: zone_file_status_def split: option.splits)

theorem zone_file_status_classifies_witness:
  "zone_file_status env_demo (zone_heap heap_demo 1) ''c.zone'' = ZONE_STATUS_NOT_FOUND \<and>
   zone_file_status env_demo None ''a.zone'' = ZONE_STATUS_FOUND_NEW \<and>
   zone_file_status env_demo (zone_heap heap_demo 1) ''a.zone'' = ZONE_STATUS_FOUND_CURRENT \<and>
   zone_file_status env_demo (zone_heap heap_demo 3) ''b.zone'' = ZONE_STATUS_FOUND_UPDATED"
proof -
  have nf: "stat env_demo ''c.zone'' = None"
    by (simp add: env_demo_def)
  have new: "stat env_demo ''a.zone'' \<noteq> None \<and> (None :: zone_t option) = None"
    by (simp add: env_demo_def)
  have cur: "zone_heap heap_demo 1 = Some (the (zone_heap heap_demo 1)) \<and>
             stat env_demo ''a.zone'' = Some (zonefile_mtime (the (zone_heap heap_demo 1)))"
    by (simp add: demo_defs)
  have upd: "zone_heap heap_demo 3 = Some (the (zone_heap heap_demo 3)) \<and>
             stat env_demo ''b.zone'' = Some 200 \<and>
             zonefile_mtime (the (zone_heap heap_demo 3)) \<noteq> 200"
    by (simp add: demo_defs)
  from zone_file_status_classifies [of env_demo "''c.zone''" "zone_heap heap_demo 1"] nf
  have 1: "zone_file_status env_demo (zone_heap heap_demo 1) ''c.zone'' = ZONE_STATUS_NOT_FOUND"
    by blast
  from zone_file_status_classifies [of env_demo "''a.zone''" None] new
  have 2: "zone_file_status env_demo None ''a.zone'' = ZONE_STATUS_FOUND_NEW"
    by blast
  from zone_file_status_classifies [of env_demo "''a.zone''" "zone_heap heap_demo 1"] cur
  have 3: "zone_file_status env_demo (zone_heap heap_demo 1) ''a.zone'' = ZONE_STATUS_FOUND_CURRENT"
    by blast
  from zone_file_status_classifies [of env_demo "''b.zone''" "zone_heap heap_demo 3"] upd
  have 4: "zone_file_status env_demo (zone_heap heap_demo 3) ''b.zone'' = ZONE_STATUS_FOUND_UPDATED"
    by blast
  from 1 2 3 4 show ?thesis by blast
qed

section \<open>The entry point\<close>

text \<open>
  Claim C10.  Called with a null configuration or a null name server,
  \<open>zones_update_db_from_config\<close> returns \<open>KNOT_EINVAL\<close>; called with a name server
  that has no zone database, it returns \<open>KNOT_ENOENT\<close>.  In both cases it returns
  before anything is built: the name server (and so its live database), the value at
  \<open>*db_old\<close> and the heap are the ones it was given.
\<close>

theorem zones_update_db_from_config_rejects:
  "(conf = None \<or> ns = None \<longrightarrow>
      zones_update_db_from_config e conf ns db_old s = Inr (KNOT_EINVAL, ns, db_old, s)) \<and>
   (\<forall>cf n. conf = Some cf \<and> ns = Some n \<and> zone_db n = None \<longrightarrow>
      zones_update_db_from_config e conf ns db_old s = Inr (KNOT_ENOENT, ns, db_old, s))"
  by (auto simp: zones_update_db_from_config_def split: option.splits)

theorem zones_update_db_from_config_rejects_witness:
  "zones_update_db_from_config env_demo None (Some ns_demo) (Some [(''x'', 9)]) heap_demo
     = Inr (KNOT_EINVAL, Some ns_demo, Some [(''x'', 9)], heap_demo) \<and>
   zones_update_db_from_config env_demo (Some conf_demo) None (Some [(''x'', 9)]) heap_demo
     = Inr (KNOT_EINVAL, None, Some [(''x'', 9)], heap_demo) \<and>
   zones_update_db_from_config env_demo (Some conf_demo)
       (Some (ns_demo\<lparr>zone_db := None\<rparr>)) (Some [(''x'', 9)]) heap_demo
     = Inr (KNOT_ENOENT, Some (ns_demo\<lparr>zone_db := None\<rparr>), Some [(''x'', 9)], heap_demo)"
proof -
  have nodb: "zone_db (ns_demo\<lparr>zone_db := None\<rparr>) = None"
    by simp
  from zones_update_db_from_config_rejects
         [of None "Some ns_demo" env_demo "Some [(''x'', 9)]" heap_demo]
  have 1: "zones_update_db_from_config env_demo None (Some ns_demo) (Some [(''x'', 9)]) heap_demo
             = Inr (KNOT_EINVAL, Some ns_demo, Some [(''x'', 9)], heap_demo)"
    by blast
  from zones_update_db_from_config_rejects
         [of "Some conf_demo" None env_demo "Some [(''x'', 9)]" heap_demo]
  have 2: "zones_update_db_from_config env_demo (Some conf_demo) None (Some [(''x'', 9)]) heap_demo
             = Inr (KNOT_EINVAL, None, Some [(''x'', 9)], heap_demo)"
    by blast
  from zones_update_db_from_config_rejects
         [of "Some conf_demo" "Some (ns_demo\<lparr>zone_db := None\<rparr>)" env_demo
             "Some [(''x'', 9)]" heap_demo] nodb
  have 3: "zones_update_db_from_config env_demo (Some conf_demo)
             (Some (ns_demo\<lparr>zone_db := None\<rparr>)) (Some [(''x'', 9)]) heap_demo
             = Inr (KNOT_ENOENT, Some (ns_demo\<lparr>zone_db := None\<rparr>), Some [(''x'', 9)], heap_demo)"
    by blast
  from 1 2 3 show ?thesis by blast
qed

section \<open>Building a zone\<close>

text \<open>
  Claim C8, amended.  On the \<open>NOT_FOUND\<close> path a zone is produced if and only if the
  configuration declares at least one transfer-in source and \<open>zone_new\<close> succeeds; the
  zone produced has no contents.  Otherwise \<open>update_zone\<close> fails with
  \<open>KNOT_EZONENOENT\<close> and hands out no zone, and the worker goes on with the remaining
  configurations and the new database unchanged.
\<close>

theorem bootstrap_needs_xfr_in_and_memory:
  assumes "stat e (conf_file conf) = None" and "deref_zone s old_zone = Inr oz"
  shows "((\<exists>z s'. create_zone e old_zone conf ns s = Inr (Some z, s')) \<longleftrightarrow>
            xfr_in conf \<noteq> [] \<and> fst (zone_new e conf s) \<noteq> None) \<and>
         (\<forall>z s'. create_zone e old_zone conf ns s = Inr (Some z, s') \<longrightarrow>
            (\<exists>zr. zone_heap s' z = Some zr \<and> contents zr = None)) \<and>
         (xfr_in conf = [] \<or> fst (zone_new e conf s) = None \<longrightarrow>
            update_zone e old_zone conf ns s = Inr (KNOT_EZONENOENT, None, s)) \<and>
         (\<forall>apex s0. (xfr_in conf = [] \<or> fst (zone_new e conf s) = None) \<and>
                    knot_dname_from_str e (conf_name conf) = Some apex \<and>
                    old_zone = knot_zonedb_find (zone_db ns) apex \<and>
                    s = zone_freeze old_zone s0 \<longrightarrow>
            (\<forall>rest db. zone_loader_thread e ns (conf # rest) db s0 =
                       zone_loader_thread e ns rest db s))"
proof -
  note cz = create_zone_not_found [OF assms, of ns]
  have 1: "(\<exists>z s'. create_zone e old_zone conf ns s = Inr (Some z, s')) \<longleftrightarrow>
            xfr_in conf \<noteq> [] \<and> fst (zone_new e conf s) \<noteq> None"
    unfolding cz by (auto simp: bootstrap_zone_def split: prod.splits option.splits)
  have 2: "\<forall>z s'. create_zone e old_zone conf ns s = Inr (Some z, s') \<longrightarrow>
            (\<exists>zr. zone_heap s' z = Some zr \<and> contents zr = None)"
    unfolding cz
    by (auto simp: bootstrap_zone_def add_event_def set_server_def
             split: prod.splits option.splits if_splits dest!: zone_new_Some)
  have 3: "xfr_in conf = [] \<or> fst (zone_new e conf s) = None \<longrightarrow>
            update_zone e old_zone conf ns s = Inr (KNOT_EZONENOENT, None, s)"
    by (auto simp: update_zone_def cz bootstrap_zone_def dest: zone_new_None)
  have 4: "\<forall>apex s0. (xfr_in conf = [] \<or> fst (zone_new e conf s) = None) \<and>
                    knot_dname_from_str e (conf_name conf) = Some apex \<and>
                    old_zone = knot_zonedb_find (zone_db ns) apex \<and>
                    s = zone_freeze old_zone s0 \<longrightarrow>
            (\<forall>rest db. zone_loader_thread e ns (conf # rest) db s0 =
                       zone_loader_thread e ns rest db s)"
  proof (intro allI impI)
    fix apex s0 rest db
    assume a: "(xfr_in conf = [] \<or> fst (zone_new e conf s) = None) \<and>
               knot_dname_from_str e (conf_name conf) = Some apex \<and>
               old_zone = knot_zonedb_find (zone_db ns) apex \<and> s = zone_freeze old_zone s0"
    with 3 have "update_zone e (knot_zonedb_find (zone_db ns) apex) conf ns
                   (zone_freeze (knot_zonedb_find (zone_db ns) apex) s0)
                 = Inr (KNOT_EZONENOENT, None, s)"
      by auto
    from loader_iteration_update_failed [OF _ this, of db] a
    have "loader_iteration e ns conf db s0 = Inr (None, db, s)"
      by simp
    then show "zone_loader_thread e ns (conf # rest) db s0 = zone_loader_thread e ns rest db s"
      by simp
  qed
  from 1 2 3 4 show ?thesis by blast
qed

theorem bootstrap_needs_xfr_in_and_memory_witness:
  "(\<exists>z s'. create_zone env_demo None conf_c ns_demo heap_demo = Inr (Some z, s') \<and>
           (\<exists>zr. zone_heap s' z = Some zr \<and> contents zr = None)) \<and>
   update_zone env_demo None conf_d ns_demo heap_demo = Inr (KNOT_EZONENOENT, None, heap_demo) \<and>
   zone_loader_thread env_demo ns_demo [conf_d, conf_c] [] heap_demo =
   zone_loader_thread env_demo ns_demo [conf_c] [] heap_demo"
proof -
  have nf: "stat env_demo (conf_file conf_c) = None" "stat env_demo (conf_file conf_d) = None"
    by (simp_all add: demo_defs conf_d_def)
  have deref: "deref_zone heap_demo None = Inr None"
    by (simp add: deref_zone_def)
  have xfr: "xfr_in conf_c \<noteq> []" "xfr_in conf_d = []"
    by (simp_all add: demo_defs conf_d_def)
  have new: "fst (zone_new env_demo conf_c heap_demo) \<noteq> None"
    by (simp add: zone_new_def env_demo_def)
  have d4: "(xfr_in conf_d = [] \<or> fst (zone_new env_demo conf_d heap_demo) = None) \<and>
            knot_dname_from_str env_demo (conf_name conf_d) = Some ''d'' \<and>
            None = knot_zonedb_find (zone_db ns_demo) ''d'' \<and>
            heap_demo = zone_freeze None heap_demo"
    by (simp add: demo_defs conf_d_def knot_zonedb_find_def zone_freeze_def)
  note c = bootstrap_needs_xfr_in_and_memory [OF nf(1) deref, of ns_demo]
  note d = bootstrap_needs_xfr_in_and_memory [OF nf(2) deref, of ns_demo]
  from c xfr(1) new
  have 1: "\<exists>z s'. create_zone env_demo None conf_c ns_demo heap_demo = Inr (Some z, s') \<and>
           (\<exists>zr. zone_heap s' z = Some zr \<and> contents zr = None)"
    by blast
  from d xfr(2)
  have 2: "update_zone env_demo None conf_d ns_demo heap_demo = Inr (KNOT_EZONENOENT, None, heap_demo)"
    by blast
  from d d4
  have 3: "zone_loader_thread env_demo ns_demo (conf_d # [conf_c]) [] heap_demo =
           zone_loader_thread env_demo ns_demo [conf_c] [] heap_demo"
    by blast
  from 1 2 3 show ?thesis by blast
qed

text \<open>
  Claim C8 as it was stated (a zone is produced whenever a transfer-in source is
  declared) fails when the zone cannot be allocated.
\<close>

theorem bootstrap_fails_without_memory:
  "xfr_in conf_c \<noteq> [] \<and> stat env_nomem (conf_file conf_c) = None \<and>
   create_zone env_nomem None conf_c ns_demo heap_demo = Inr (None, heap_demo)"
  by (simp add: env_nomem_def env_demo_def conf_c_def create_zone_def deref_zone_def
        bootstrap_zone_def zone_new_def zone_file_status_def)



section \<open>The update pipeline\<close>

text \<open>
  Claim C5, amended.  Once \<open>create_zone\<close> has built the zone, \<open>update_zone\<close>
  performs its steps in this order: it applies the journal, where the results
  \<open>KNOT_EOK\<close>, \<open>KNOT_ERANGE\<close> and \<open>KNOT_ENOENT\<close> are tolerated and any other
  result aborts the zone; it calls diff-and-sign with the flag \<open>new_content\<close>, a failure
  aborting the zone; it schedules the IXFR sync timer; and last, when the zone has
  contents, it loads the NSEC3PARAM, a failure aborting the zone, while a small EDNS
  payload on a signed zone only adds a warning.  The trace of the run is the trace after
  \<open>create_zone\<close> followed by exactly these calls.
\<close>

theorem update_zone_steps:
  assumes cz: "create_zone e old_zone conf ns s = Inr (Some nz, s1)"
    and nzr: "zone_heap s1 nz = Some zr"
    and deref: "deref_zone s1 old_zone = Inr oz"
    and uz: "update_zone e old_zone conf ns s = Inr (r, dst, s')"
    and nc: "nc = (case oz of None \<Rightarrow> True | Some ozr \<Rightarrow> contents ozr \<noteq> contents zr)"
    and j: "j = zones_journal_apply e (name zr)"
    and g: "g = zones_do_diff_and_sign e conf nc"
  shows "(\<not> tolerated j \<longrightarrow>
            r = j \<and> dst = None \<and> trace s' = trace s1 @ [Journal_apply nz]) \<and>
         (tolerated j \<and> g \<noteq> KNOT_EOK \<longrightarrow>
            r = g \<and> dst = None \<and>
            trace s' = trace s1 @ [Journal_apply nz, Diff_and_sign nz nc]) \<and>
         (tolerated j \<and> g = KNOT_EOK \<and> contents zr = None \<longrightarrow>
            r = KNOT_EOK \<and> dst = Some nz \<and>
            trace s' = trace s1 @ [Journal_apply nz, Diff_and_sign nz nc,
                                   Schedule_ixfr_sync nz (dbsync_timeout conf)]) \<and>
         (\<forall>c cc. tolerated j \<and> g = KNOT_EOK \<and> contents zr = Some c \<and>
                 contents_heap s1 c = Some cc \<and> c_nsec3param cc \<noteq> KNOT_EOK \<longrightarrow>
            r = c_nsec3param cc \<and> dst = None \<and>
            trace s' = trace s1 @ [Journal_apply nz, Diff_and_sign nz nc,
                                   Schedule_ixfr_sync nz (dbsync_timeout conf),
                                   Load_nsec3param c]) \<and>
         (\<forall>c cc. tolerated j \<and> g = KNOT_EOK \<and> contents zr = Some c \<and>
                 contents_heap s1 c = Some cc \<and> c_nsec3param cc = KNOT_EOK \<longrightarrow>
            r = KNOT_EOK \<and> dst = Some nz \<and>
            trace s' = trace s1 @ [Journal_apply nz, Diff_and_sign nz nc,
                                   Schedule_ixfr_sync nz (dbsync_timeout conf),
                                   Load_nsec3param c] @
                       (if c_signed cc \<and> opt_rr_payload ns < EDNS_MIN_DNSSEC_PAYLOAD e
                        then [Warn_edns_payload nz] else []))"
proof -
  have tr: "\<And>rr st. update_zone_fail rr nz old_zone nc st = Inr (r, dst, s') \<Longrightarrow>
              r = rr \<and> dst = (if rr = KNOT_EOK then Some nz else None) \<and> trace s' = trace st"
    by (drule update_zone_fail_result) simp
  note defs = update_zone_def cz nzr deref Let_def tolerated_def
  have c1: "\<not> tolerated j \<longrightarrow>
              r = j \<and> dst = None \<and> trace s' = trace s1 @ [Journal_apply nz]"
  proof
    assume a: "\<not> tolerated j"
    with uz have "update_zone_fail j nz old_zone nc (add_event (Journal_apply nz) s1)
                    = Inr (r, dst, s')"
      by (simp add: defs nc j)
    from tr [OF this] a show "r = j \<and> dst = None \<and> trace s' = trace s1 @ [Journal_apply nz]"
      by (auto simp: tolerated_def)
  qed
  have c2: "tolerated j \<and> g \<noteq> KNOT_EOK \<longrightarrow>
              r = g \<and> dst = None \<and>
              trace s' = trace s1 @ [Journal_apply nz, Diff_and_sign nz nc]"
  proof
    assume a: "tolerated j \<and> g \<noteq> KNOT_EOK"
    with uz have "update_zone_fail g nz old_zone nc
        (add_event (Diff_and_sign nz nc) (add_event (Journal_apply nz) s1)) = Inr (r, dst, s')"
      by (auto simp: defs nc j g)
    from tr [OF this] a
    show "r = g \<and> dst = None \<and> trace s' = trace s1 @ [Journal_apply nz, Diff_and_sign nz nc]"
      by auto
  qed
  have c3: "tolerated j \<and> g = KNOT_EOK \<and> contents zr = None \<longrightarrow>
              r = KNOT_EOK \<and> dst = Some nz \<and>
              trace s' = trace s1 @ [Journal_apply nz, Diff_and_sign nz nc,
                                     Schedule_ixfr_sync nz (dbsync_timeout conf)]"
  proof
    assume a: "tolerated j \<and> g = KNOT_EOK \<and> contents zr = None"
    with uz have "update_zone_fail KNOT_EOK nz old_zone nc
        (add_event (Schedule_ixfr_sync nz (dbsync_timeout conf)) (set_server nz (data ns)
        (add_event (Diff_and_sign nz nc) (add_event (Journal_apply nz) s1)))) = Inr (r, dst, s')"
      by (auto simp: defs nc j g)
    from tr [OF this]
    show "r = KNOT_EOK \<and> dst = Some nz \<and>
          trace s' = trace s1 @ [Journal_apply nz, Diff_and_sign nz nc,
                                 Schedule_ixfr_sync nz (dbsync_timeout conf)]"
      by auto
  qed
  have c4: "\<forall>c cc. tolerated j \<and> g = KNOT_EOK \<and> contents zr = Some c \<and>
                 contents_heap s1 c = Some cc \<and> c_nsec3param cc \<noteq> KNOT_EOK \<longrightarrow>
              r = c_nsec3param cc \<and> dst = None \<and>
              trace s' = trace s1 @ [Journal_apply nz, Diff_and_sign nz nc,
                                     Schedule_ixfr_sync nz (dbsync_timeout conf),
                                     Load_nsec3param c]"
  proof (intro allI impI)
    fix c cc
    assume a: "tolerated j \<and> g = KNOT_EOK \<and> contents zr = Some c \<and>
               contents_heap s1 c = Some cc \<and> c_nsec3param cc \<noteq> KNOT_EOK"
    with uz have "update_zone_fail (c_nsec3param cc) nz old_zone nc
        (add_event (Load_nsec3param c)
        (add_event (Schedule_ixfr_sync nz (dbsync_timeout conf)) (set_server nz (data ns)
        (add_event (Diff_and_sign nz nc) (add_event (Journal_apply nz) s1))))) = Inr (r, dst, s')"
      by (auto simp: defs nc j g)
    from tr [OF this] a
    show "r = c_nsec3param cc \<and> dst = None \<and>
          trace s' = trace s1 @ [Journal_apply nz, Diff_and_sign nz nc,
                                 Schedule_ixfr_sync nz (dbsync_timeout conf), Load_nsec3param c]"
      by auto
  qed
  have c5: "\<forall>c cc. tolerated j \<and> g = KNOT_EOK \<and> contents zr = Some c \<and>
                 contents_heap s1 c = Some cc \<and> c_nsec3param cc = KNOT_EOK \<longrightarrow>
              r = KNOT_EOK \<and> dst = Some nz \<and>
              trace s' = trace s1 @ [Journal_apply nz, Diff_and_sign nz nc,
                                     Schedule_ixfr_sync nz (dbsync_timeout conf),
                                     Load_nsec3param c] @
                         (if c_signed cc \<and> opt_rr_payload ns < EDNS_MIN_DNSSEC_PAYLOAD e
                          then [Warn_edns_payload nz] else [])"
  proof (intro allI impI)
    fix c cc
    assume a: "tolerated j \<and> g = KNOT_EOK \<and> contents zr = Some c \<and>
               contents_heap s1 c = Some cc \<and> c_nsec3param cc = KNOT_EOK"
    let ?s6 = "add_event (Load_nsec3param c)
        (add_event (Schedule_ixfr_sync nz (dbsync_timeout conf)) (set_server nz (data ns)
        (add_event (Diff_and_sign nz nc) (add_event (Journal_apply nz) s1))))"
    from a uz have "update_zone_fail KNOT_EOK nz old_zone nc
        (if c_signed cc \<and> opt_rr_payload ns < EDNS_MIN_DNSSEC_PAYLOAD e
         then add_event (Warn_edns_payload nz) ?s6 else ?s6) = Inr (r, dst, s')"
      by (auto simp: defs nc j g)
    from tr [OF this]
    show "r = KNOT_EOK \<and> dst = Some nz \<and>
          trace s' = trace s1 @ [Journal_apply nz, Diff_and_sign nz nc,
                                 Schedule_ixfr_sync nz (dbsync_timeout conf), Load_nsec3param c] @
                     (if c_signed cc \<and> opt_rr_payload ns < EDNS_MIN_DNSSEC_PAYLOAD e
                      then [Warn_edns_payload nz] else [])"
      by auto
  qed
  from c1 c2 c3 c4 c5 show ?thesis
    by (intro conjI)
qed

theorem update_zone_steps_witness:
  "(\<exists>s'. update_zone env_journal (Some 3) conf_b ns_demo heap_demo = Inr (KNOT_EMALF, None, s') \<and>
         trace s' = [Reset_timers 5, Journal_apply 5]) \<and>
   (\<exists>s'. update_zone env_sign (Some 1) conf_a ns_demo heap_demo = Inr (KNOT_ERROR, None, s') \<and>
         trace s' = [Reset_timers 5, Journal_apply 5, Diff_and_sign 5 False]) \<and>
   (\<exists>s'. update_zone env_nsec3 (Some 3) conf_b ns_demo heap_demo = Inr (KNOT_EMALF, None, s') \<and>
         trace s' = [Reset_timers 5, Journal_apply 5, Diff_and_sign 5 True,
                     Schedule_ixfr_sync 5 0, Load_nsec3param 6]) \<and>
   (\<exists>s'. update_zone env_signed (Some 3) conf_b ns_small heap_demo = Inr (KNOT_EOK, Some 5, s') \<and>
         trace s' = [Reset_timers 5, Journal_apply 5, Diff_and_sign 5 True,
                     Schedule_ixfr_sync 5 0, Load_nsec3param 6, Warn_edns_payload 5])"
proof -
  let ?za = "\<lparr>name = ''a'', contents = Some 2, zonefile_mtime = 0, zonefile_serial = 0,
              server = Some 0\<rparr>"
  let ?zb = "\<lparr>name = ''b'', contents = Some 6, zonefile_mtime = 200, zonefile_serial = 7,
              server = Some 0\<rparr>"
  let ?oa = "\<lparr>name = ''a'', contents = Some 2, zonefile_mtime = 100, zonefile_serial = 1,
              server = Some 0\<rparr>"
  let ?ob = "\<lparr>name = ''b'', contents = Some 4, zonefile_mtime = 100, zonefile_serial = 1,
              server = Some 0\<rparr>"
  have tol: "\<not> tolerated KNOT_EMALF" "tolerated KNOT_ENOENT" "KNOT_ERROR \<noteq> KNOT_EOK"
    "KNOT_EMALF \<noteq> KNOT_EOK"
    by (simp_all add: tolerated_def)
  \<comment> \<open>the journal fails\<close>
  have "\<exists>s1. create_zone env_journal (Some 3) conf_b ns_demo heap_demo = Inr (Some 5, s1) \<and>
          zone_heap s1 5 = Some ?zb \<and> deref_zone s1 (Some 3) = Inr (Some ?ob) \<and>
          trace s1 = [Reset_timers 5]"
    by (simp add: model_defs env_journal_def demo_defs)
  then obtain s1 where cz1: "create_zone env_journal (Some 3) conf_b ns_demo heap_demo
                               = Inr (Some 5, s1)"
    and nz1: "zone_heap s1 5 = Some ?zb" and oz1: "deref_zone s1 (Some 3) = Inr (Some ?ob)"
    and tr1: "trace s1 = [Reset_timers 5]"
    by blast
  have "\<exists>r dst s'. update_zone env_journal (Some 3) conf_b ns_demo heap_demo = Inr (r, dst, s')"
    by (simp add: model_defs env_journal_def demo_defs)
  then obtain r1 d1 s1' where uz1: "update_zone env_journal (Some 3) conf_b ns_demo heap_demo
                                      = Inr (r1, d1, s1')"
    by blast
  have j1: "KNOT_EMALF = zones_journal_apply env_journal (name ?zb)"
    by (simp add: env_journal_def env_demo_def)
  from update_zone_steps [OF cz1 nz1 oz1 uz1 refl j1 refl] tol(1) tr1
  have 1: "r1 = KNOT_EMALF \<and> d1 = None \<and> trace s1' = [Reset_timers 5, Journal_apply 5]"
    by simp
  \<comment> \<open>the signer fails on reused contents\<close>
  have "\<exists>s1. create_zone env_sign (Some 1) conf_a ns_demo heap_demo = Inr (Some 5, s1) \<and>
          zone_heap s1 5 = Some ?za \<and> deref_zone s1 (Some 1) = Inr (Some ?oa) \<and>
          trace s1 = [Reset_timers 5]"
    by (simp add: model_defs env_sign_def demo_defs)
  then obtain s2 where cz2: "create_zone env_sign (Some 1) conf_a ns_demo heap_demo
                               = Inr (Some 5, s2)"
    and nz2: "zone_heap s2 5 = Some ?za" and oz2: "deref_zone s2 (Some 1) = Inr (Some ?oa)"
    and tr2: "trace s2 = [Reset_timers 5]"
    by blast
  have "\<exists>r dst s'. update_zone env_sign (Some 1) conf_a ns_demo heap_demo = Inr (r, dst, s')"
    by (simp add: model_defs env_sign_def demo_defs)
  then obtain r2 d2 s2' where uz2: "update_zone env_sign (Some 1) conf_a ns_demo heap_demo
                                      = Inr (r2, d2, s2')"
    by blast
  have j2: "KNOT_ENOENT = zones_journal_apply env_sign (name ?za)"
    and g2: "KNOT_ERROR = zones_do_diff_and_sign env_sign conf_a
               (case Some ?oa of None \<Rightarrow> True | Some ozr \<Rightarrow> contents ozr \<noteq> contents ?za)"
    by (simp_all add: env_sign_def env_demo_def)
  from update_zone_steps [OF cz2 nz2 oz2 uz2 refl j2 g2] tol tr2
  have 2: "r2 = KNOT_ERROR \<and> d2 = None \<and>
           trace s2' = [Reset_timers 5, Journal_apply 5, Diff_and_sign 5 False]"
    by simp
  \<comment> \<open>the NSEC3PARAM check fails\<close>
  have "\<exists>s1. create_zone env_nsec3 (Some 3) conf_b ns_demo heap_demo = Inr (Some 5, s1) \<and>
          zone_heap s1 5 = Some ?zb \<and> deref_zone s1 (Some 3) = Inr (Some ?ob) \<and>
          trace s1 = [Reset_timers 5] \<and>
          contents_heap s1 6 = Some \<lparr>c_zone = Some 5, c_serial = 7, c_signed = True,
                                       c_nsec3param = KNOT_EMALF\<rparr>"
    by (simp add: model_defs env_nsec3_def demo_defs)
  then obtain s3 where cz3: "create_zone env_nsec3 (Some 3) conf_b ns_demo heap_demo
                               = Inr (Some 5, s3)"
    and nz3: "zone_heap s3 5 = Some ?zb" and oz3: "deref_zone s3 (Some 3) = Inr (Some ?ob)"
    and tr3: "trace s3 = [Reset_timers 5]"
    and cc3: "contents_heap s3 6 = Some \<lparr>c_zone = Some 5, c_serial = 7, c_signed = True,
                                          c_nsec3param = KNOT_EMALF\<rparr>"
    by blast
  have "\<exists>r dst s'. update_zone env_nsec3 (Some 3) conf_b ns_demo heap_demo = Inr (r, dst, s')"
    by (simp add: model_defs env_nsec3_def demo_defs)
  then obtain r3 d3 s3' where uz3: "update_zone env_nsec3 (Some 3) conf_b ns_demo heap_demo
                                      = Inr (r3, d3, s3')"
    by blast
  have j3: "KNOT_ENOENT = zones_journal_apply env_nsec3 (name ?zb)"
    and g3: "KNOT_EOK = zones_do_diff_and_sign env_nsec3 conf_b
               (case Some ?ob of None \<Rightarrow> True | Some ozr \<Rightarrow> contents ozr \<noteq> contents ?zb)"
    by (simp_all add: env_nsec3_def env_demo_def)
  from update_zone_steps [OF cz3 nz3 oz3 uz3 refl j3 g3] tol tr3 cc3
  have 3: "r3 = KNOT_EMALF \<and> d3 = None \<and>
           trace s3' = [Reset_timers 5, Journal_apply 5, Diff_and_sign 5 True,
                        Schedule_ixfr_sync 5 0, Load_nsec3param 6]"
    by (simp add: conf_b_def)
  \<comment> \<open>a signed zone and a small EDNS payload\<close>
  have "\<exists>s1. create_zone env_signed (Some 3) conf_b ns_small heap_demo = Inr (Some 5, s1) \<and>
          zone_heap s1 5 = Some ?zb \<and> deref_zone s1 (Some 3) = Inr (Some ?ob) \<and>
          trace s1 = [Reset_timers 5] \<and>
          contents_heap s1 6 = Some \<lparr>c_zone = Some 5, c_serial = 7, c_signed = True,
                                       c_nsec3param = KNOT_EOK\<rparr>"
    by (simp add: model_defs env_signed_def ns_small_def demo_defs)
  then obtain s4 where cz4: "create_zone env_signed (Some 3) conf_b ns_small heap_demo
                               = Inr (Some 5, s4)"
    and nz4: "zone_heap s4 5 = Some ?zb" and oz4: "deref_zone s4 (Some 3) = Inr (Some ?ob)"
    and tr4: "trace s4 = [Reset_timers 5]"
    and cc4: "contents_heap s4 6 = Some \<lparr>c_zone = Some 5, c_serial = 7, c_signed = True,
                                          c_nsec3param = KNOT_EOK\<rparr>"
    by blast
  have "\<exists>r dst s'. update_zone env_signed (Some 3) conf_b ns_small heap_demo = Inr (r, dst, s')"
    by (simp add: model_defs env_signed_def ns_small_def demo_defs)
  then obtain r4 d4 s4' where uz4: "update_zone env_signed (Some 3) conf_b ns_small heap_demo
                                      = Inr (r4, d4, s4')"
    by blast
  have j4: "KNOT_ENOENT = zones_journal_apply env_signed (name ?zb)"
    and g4: "KNOT_EOK = zones_do_diff_and_sign env_signed conf_b
               (case Some ?ob of None \<Rightarrow> True | Some ozr \<Rightarrow> contents ozr \<noteq> contents ?zb)"
    and p4: "opt_rr_payload ns_small < EDNS_MIN_DNSSEC_PAYLOAD env_signed"
    by (simp_all add: env_signed_def env_demo_def ns_small_def ns_demo_def)
  from update_zone_steps [OF cz4 nz4 oz4 uz4 refl j4 g4] tol tr4 cc4 p4
  have 4: "r4 = KNOT_EOK \<and> d4 = Some 5 \<and>
           trace s4' = [Reset_timers 5, Journal_apply 5, Diff_and_sign 5 True,
                        Schedule_ixfr_sync 5 0, Load_nsec3param 6, Warn_edns_payload 5]"
    by (simp add: conf_b_def)
  from 1 2 3 4 uz1 uz2 uz3 uz4 show ?thesis by blast
qed

text \<open>
  Claim C5 as it was stated puts the timer last, after the NSEC3 check.  In this run the
  check fails and the zone is aborted, yet the timer has been scheduled before the check.
\<close>

theorem update_zone_schedules_before_check:
  "update_view (update_zone env_nsec3 (Some 3) conf_b ns_demo heap_demo) =
   Inr (KNOT_EMALF, None, [Reset_timers 5, Journal_apply 5, Diff_and_sign 5 True,
                           Schedule_ixfr_sync 5 0, Load_nsec3param 6])"
  by (simp add: update_view_def update_zone_def create_zone_def deref_zone_def
        zone_file_status_def load_zone_def zload_alloc_def set_zonefile_info_def
        knot_dname_cmp_def set_server_def add_event_def update_zone_fail_def zone_deep_free_def
        env_nsec3_def demo_defs Let_def)

section \<open>Rolling back an aborted update\<close>

text \<open>
  When a step of \<open>update_zone\<close> aborts and the run returns: if the new zone shares its
  contents with the old zone, the contents are bound back to the old zone, which is left
  as it was, and the new zone alone is freed; if the new zone has contents of its own,
  zone and contents are freed; in both cases no zone is handed out, and the worker goes
  on with the remaining configurations and the new database unchanged.
\<close>

lemma update_zone_rollback_cases:
  assumes cz: "create_zone e old_zone conf ns s = Inr (Some nz, s1)"
    and nzr: "zone_heap s1 nz = Some zr"
    and uz: "update_zone e old_zone conf ns s = Inr (r, dst, s')"
    and fail: "r \<noteq> KNOT_EOK"
  shows "(\<forall>op ozr c. old_zone = Some op \<and> op \<noteq> nz \<and> zone_heap s1 op = Some ozr \<and>
                   contents ozr = Some c \<and> contents zr = Some c \<longrightarrow>
            dst = None \<and> zone_heap s' nz = None \<and> zone_heap s' op = Some ozr \<and>
            (\<exists>cc. contents_heap s' c = Some cc \<and> c_zone cc = Some op)) \<and>
         (\<forall>c. contents zr = Some c \<and>
               (old_zone = None \<or>
                (\<exists>op ozr. old_zone = Some op \<and> zone_heap s1 op = Some ozr \<and>
                          contents ozr \<noteq> Some c)) \<longrightarrow>
            dst = None \<and> zone_heap s' nz = None \<and> contents_heap s' c = None) \<and>
         (\<forall>apex s0. knot_dname_from_str e (conf_name conf) = Some apex \<and>
                    old_zone = knot_zonedb_find (zone_db ns) apex \<and>
                    s = zone_freeze old_zone s0 \<longrightarrow>
            (\<forall>rest db. zone_loader_thread e ns (conf # rest) db s0 =
                       zone_loader_thread e ns rest db s'))"
proof -
  from update_zone_failure_point [OF cz nzr uz]
  obtain oz st where deref: "deref_zone s1 old_zone = Inr oz"
    and so: "same_objects nz zr s1 st"
    and f: "update_zone_fail r nz old_zone
              (case oz of None \<Rightarrow> True | Some ozr \<Rightarrow> contents ozr \<noteq> contents zr) st
            = Inr (r, dst, s')"
    by blast
  from so obtain zr' where new: "zone_heap st nz = Some zr'" and same: "contents zr' = contents zr"
    by (auto simp: same_objects_def)
  have reused: "\<forall>op ozr c. old_zone = Some op \<and> op \<noteq> nz \<and> zone_heap s1 op = Some ozr \<and>
                   contents ozr = Some c \<and> contents zr = Some c \<longrightarrow>
            dst = None \<and> zone_heap s' nz = None \<and> zone_heap s' op = Some ozr \<and>
            (\<exists>cc. contents_heap s' c = Some cc \<and> c_zone cc = Some op)"
  proof (intro allI impI)
    fix op ozr c
    assume a: "old_zone = Some op \<and> op \<noteq> nz \<and> zone_heap s1 op = Some ozr \<and>
               contents ozr = Some c \<and> contents zr = Some c"
    with deref have oz: "oz = Some ozr"
      by (simp add: deref_zone_def)
    from a so have old: "zone_heap st op = Some ozr"
      by (simp add: same_objects_def)
    from f a oz have "update_zone_fail r nz (Some op) False st = Inr (r, dst, s')"
      by simp
    from update_zone_fail_reused [OF this fail _ old] a
    show "dst = None \<and> zone_heap s' nz = None \<and> zone_heap s' op = Some ozr \<and>
          (\<exists>cc. contents_heap s' c = Some cc \<and> c_zone cc = Some op)"
      by blast
  qed
  have fresh: "\<forall>c. contents zr = Some c \<and>
               (old_zone = None \<or>
                (\<exists>op ozr. old_zone = Some op \<and> zone_heap s1 op = Some ozr \<and>
                          contents ozr \<noteq> Some c)) \<longrightarrow>
            dst = None \<and> zone_heap s' nz = None \<and> contents_heap s' c = None"
  proof (intro allI impI)
    fix c
    assume a: "contents zr = Some c \<and>
               (old_zone = None \<or>
                (\<exists>op ozr. old_zone = Some op \<and> zone_heap s1 op = Some ozr \<and>
                          contents ozr \<noteq> Some c))"
    with deref have "(case oz of None \<Rightarrow> True | Some ozr \<Rightarrow> contents ozr \<noteq> contents zr)"
      by (auto simp: deref_zone_def)
    with f have "update_zone_fail r nz old_zone True st = Inr (r, dst, s')"
      by simp
    from update_zone_fail_fresh [OF this fail new] same a
    show "dst = None \<and> zone_heap s' nz = None \<and> contents_heap s' c = None"
      by simp
  qed
  have goes_on: "\<forall>apex s0. knot_dname_from_str e (conf_name conf) = Some apex \<and>
                    old_zone = knot_zonedb_find (zone_db ns) apex \<and>
                    s = zone_freeze old_zone s0 \<longrightarrow>
            (\<forall>rest db. zone_loader_thread e ns (conf # rest) db s0 =
                       zone_loader_thread e ns rest db s')"
  proof (intro allI impI)
    fix apex s0 rest db
    assume a: "knot_dname_from_str e (conf_name conf) = Some apex \<and>
               old_zone = knot_zonedb_find (zone_db ns) apex \<and> s = zone_freeze old_zone s0"
    with uz have "update_zone e (knot_zonedb_find (zone_db ns) apex) conf ns
                    (zone_freeze (knot_zonedb_find (zone_db ns) apex) s0) = Inr (r, dst, s')"
      by simp
    from loader_iteration_update_failed [OF _ this fail, of db] a
    have "loader_iteration e ns conf db s0 = Inr (None, db, s')"
      by simp
    then show "zone_loader_thread e ns (conf # rest) db s0 = zone_loader_thread e ns rest db s'"
      by simp
  qed
  from reused fresh goes_on show ?thesis
    by (intro conjI)
qed

text \<open>
  The run of \<open>update_zone\<close> returns when the zone just built is live, its contents (if
  any) are live, and it is not the case that the old and the new zone both lack
  contents.
\<close>

lemma update_zone_returns:
  assumes cz: "create_zone e old_zone conf ns s = Inr (Some nz, s1)"
    and nzr: "zone_heap s1 nz = Some zr"
    and deref: "deref_zone s1 old_zone = Inr oz"
    and live: "\<forall>c. contents zr = Some c \<longrightarrow> contents_heap s1 c \<noteq> None"
    and some: "\<forall>ozr. oz = Some ozr \<and> contents ozr = contents zr \<longrightarrow> contents zr \<noteq> None"
  shows "\<exists>r dst s'. update_zone e old_zone conf ns s = Inr (r, dst, s')"
proof -
  define nc where "nc = (case oz of None \<Rightarrow> True | Some ozr \<Rightarrow> contents ozr \<noteq> contents zr)"
  have fail: "\<not> isl (update_zone_fail r nz old_zone nc st)"
    if so: "same_objects nz zr s1 st" for r st
  proof -
    from so obtain zr' where z': "zone_heap st nz = Some zr'" and cz': "contents zr' = contents zr"
      by (auto simp: same_objects_def)
    have "nc \<or> (\<exists>op ozr c cc. old_zone = Some op \<and> zone_heap st op = Some ozr \<and>
                  contents ozr = Some c \<and> contents_heap st c = Some cc)"
    proof (cases nc)
      case True
      then show ?thesis by simp
    next
      case False
      then obtain ozr where oz: "oz = Some ozr" and eq: "contents ozr = contents zr"
        by (auto simp: nc_def split: option.splits)
      from some oz eq obtain c where c: "contents zr = Some c" by auto
      with live obtain cc where cc: "contents_heap s1 c = Some cc" by auto
      from deref oz obtain op where op: "old_zone = Some op" and oo: "zone_heap s1 op = Some ozr"
        by (auto simp: deref_zone_def split: option.splits)
      show ?thesis
      proof (cases "op = nz")
        case True
        with op z' cz' c cc so show ?thesis
          by (auto simp: same_objects_def)
      next
        case False
        with op oo eq c cc so show ?thesis
          by (auto simp: same_objects_def)
      qed
    qed
    from update_zone_fail_returns [OF z' this, of r] show ?thesis by auto
  qed
  define s3 where "s3 = add_event (Diff_and_sign nz nc) (add_event (Journal_apply nz) s1)"
  define s5 where "s5 = add_event (Schedule_ixfr_sync nz (dbsync_timeout conf))
                          (set_server nz (data ns) s3)"
  have so: "same_objects nz zr s1 s1"
    by (rule same_objects_refl [OF nzr])
  have so2: "same_objects nz zr s1 (add_event (Journal_apply nz) s1)"
    by (simp add: so)
  have so3: "same_objects nz zr s1 s3"
    by (simp add: s3_def so)
  have so5: "same_objects nz zr s1 s5"
    by (simp add: s5_def same_objects_set_server [OF so3])
  have so6: "\<And>c. same_objects nz zr s1 (add_event (Load_nsec3param c) s5)"
    by (simp add: so5)
  have so7: "\<And>c. same_objects nz zr s1
                 (add_event (Warn_edns_payload nz) (add_event (Load_nsec3param c) s5))"
    by (simp add: so5)
  have ch5: "contents_heap s5 = contents_heap s1"
    using so5 by (simp add: same_objects_def)
  have "\<not> isl (update_zone e old_zone conf ns s)"
    using fail [OF so2] fail [OF so3] fail [OF so5] fail [OF so6] fail [OF so7] live ch5
    by (auto simp: update_zone_def cz nzr deref Let_def nc_def [symmetric] s3_def [symmetric]
          s5_def [symmetric] split: option.splits)
  then show ?thesis
    by (cases "update_zone e old_zone conf ns s") auto
qed

text \<open>
  Claim C4.  The claim wants every aborted update rolled back, the zone left out of the
  new database and the reload going on.  For a zone that is bootstrapped again the code
  does not do it: the old and the new zone both have no contents, so \<open>new_content\<close> is
  false (\<open>NULL\<close> equals \<open>NULL\<close>), and when the signer fails the rollback takes the
  branch for recycled contents and dereferences \<open>old_zone->contents\<close>, which is
  \<open>NULL\<close>: \<open>update_zone\<close> faults and the whole reload with it.  The same abort for
  a zone without an old zone is rolled back and returns.
\<close>

theorem rollback_of_rebootstrapped_zone_faults:
  "zone_file_status env_sign (zone_heap heap_boot 1) (conf_file conf_c) = ZONE_STATUS_NOT_FOUND \<and>
   update_zone env_sign (Some 1) conf_c ns_boot heap_boot = Inl NullDeref \<and>
   zones_update_db_from_config env_sign (Some conf_only_c) (Some ns_boot) None heap_boot
     = Inl NullDeref \<and>
   update_view (update_zone env_sign None conf_c ns_demo heap_demo)
     = Inr (KNOT_ERROR, None, [Reset_timers 5, Journal_apply 5, Diff_and_sign 5 True])"
  by (simp add: reload_defs model_defs update_view_def env_sign_def demo_defs heap_boot_def
        ns_boot_def conf_only_c_def)

section \<open>The loader\<close>





section \<open>Pointers of the zones a reload builds\<close>

text \<open>
  Every zone that \<open>create_zone\<close> builds is newly allocated: its pointer is the
  allocation pointer of the heap before, and the allocation pointer never decreases.
\<close>

lemma zone_new_ptr:
  "zone_new e conf s = (zo, s1) \<Longrightarrow>
     next_ptr s \<le> next_ptr s1 \<and> (\<forall>z. zo = Some z \<longrightarrow> z = next_ptr s)"
  by (auto simp: zone_new_def split: option.splits if_splits)

lemma bootstrap_zone_ptr:
  "bootstrap_zone e conf s = (zo, s1) \<Longrightarrow>
     next_ptr s \<le> next_ptr s1 \<and> (\<forall>z. zo = Some z \<longrightarrow> z = next_ptr s)"
  by (auto simp: bootstrap_zone_def split: if_splits prod.splits option.splits dest: zone_new_ptr)

lemma load_zone_ptr:
  "load_zone e conf s = (zo, s1) \<Longrightarrow>
     next_ptr s \<le> next_ptr s1 \<and> (\<forall>z. zo = Some z \<longrightarrow> z = next_ptr s)"
  by (auto simp: load_zone_def Let_def zload_alloc_def set_zonefile_info_def
           split: knot_error.splits option.splits if_splits)

lemma preserve_zone_ptr:
  "preserve_zone e conf p s = Inr (zo, s1) \<Longrightarrow>
     next_ptr s \<le> next_ptr s1 \<and> (\<forall>z. zo = Some z \<longrightarrow> z = next_ptr s)"
  by (auto simp: preserve_zone_def split: prod.splits option.splits dest: zone_new_ptr)

lemma create_zone_ptr:
  "create_zone e old_zone conf ns s = Inr (zo, s1) \<Longrightarrow>
     next_ptr s \<le> next_ptr s1 \<and> (\<forall>z. zo = Some z \<longrightarrow> z = next_ptr s)"
  by (auto simp: create_zone_def
           split: sum.splits zone_status_t.splits option.splits prod.splits
           dest: bootstrap_zone_ptr load_zone_ptr preserve_zone_ptr)

lemma update_zone_fail_ptr:
  "update_zone_fail r nz old nc s = Inr (r', dst, s') \<Longrightarrow>
     next_ptr s' = next_ptr s \<and> (\<forall>z. dst = Some z \<longrightarrow> z = nz)"
  by (auto simp: update_zone_fail_def split: if_splits option.splits)

lemma update_zone_ptr:
  assumes "update_zone e old_zone conf ns s = Inr (r, dst, s')"
  shows "next_ptr s \<le> next_ptr s' \<and> (\<forall>z. dst = Some z \<longrightarrow> z = next_ptr s)"
proof (cases "create_zone e old_zone conf ns s")
  case (Inl f)
  with assms show ?thesis by (simp add: update_zone_def)
next
  case (Inr p)
  obtain zo s1 where p: "p = (zo, s1)" by (cases p)
  note cz = Inr [unfolded p]
  from create_zone_ptr [OF cz]
  have le: "next_ptr s \<le> next_ptr s1" and z: "\<forall>z. zo = Some z \<longrightarrow> z = next_ptr s"
    by simp_all
  show ?thesis
  proof (cases zo)
    case None
    with assms cz le show ?thesis by (simp add: update_zone_def)
  next
    case (Some nz)
    with z have nz: "nz = next_ptr s" by simp
    from assms cz Some obtain zr where zr: "zone_heap s1 nz = Some zr"
      by (cases "zone_heap s1 nz") (auto simp: update_zone_def split: sum.splits)
    from update_zone_failure_point [OF cz [unfolded Some] zr assms]
    obtain oz st where deref: "deref_zone s1 old_zone = Inr oz"
      and so: "same_objects nz zr s1 st"
      and f: "update_zone_fail r nz old_zone
                (case oz of None \<Rightarrow> True | Some ozr \<Rightarrow> contents ozr \<noteq> contents zr) st
              = Inr (r, dst, s')"
      by blast
    from so have "next_ptr st = next_ptr s1"
      by (simp add: same_objects_def)
    with update_zone_fail_ptr [OF f] le nz show ?thesis
      by simp
  qed
qed

lemma insert_failed_ptr: "insert_failed old z s = Inr s' \<Longrightarrow> next_ptr s' = next_ptr s"
  by (auto simp: insert_failed_def split: sum.splits option.splits if_splits)

text \<open>
  A round of the worker adds to the new database at most the zone it has just
  allocated.
\<close>

lemma loader_iteration_ptr:
  assumes "loader_iteration e ns c db s = Inr (k, db', s')"
  shows "next_ptr s \<le> next_ptr s' \<and>
         (\<forall>n p. (n, p) \<in> set db' \<longrightarrow> (n, p) \<in> set db \<or> next_ptr s \<le> p)"
proof (cases "knot_dname_from_str e (conf_name c)")
  case None
  with assms show ?thesis by (simp add: loader_iteration_def)
next
  case (Some apex)
  let ?old = "knot_zonedb_find (zone_db ns) apex"
  from assms Some obtain ret zone s2
    where uz: "update_zone e ?old c ns (zone_freeze ?old s) = Inr (ret, zone, s2)"
    by (cases "update_zone e ?old c ns (zone_freeze ?old s)")
       (auto simp: loader_iteration_def Let_def)
  from update_zone_ptr [OF uz]
  have le: "next_ptr s \<le> next_ptr s2" and z: "\<forall>z. zone = Some z \<longrightarrow> z = next_ptr s"
    by simp_all
  from assms Some uz le z show ?thesis
    by (auto simp: loader_iteration_def Let_def knot_zonedb_insert_def
             split: if_splits option.splits sum.splits dest: insert_failed_ptr)
qed

lemma zone_loader_thread_ptr:
  "zone_loader_thread e ns cs db s = Inr (r, db', s') \<Longrightarrow>
     next_ptr s \<le> next_ptr s' \<and>
     (\<forall>n p. (n, p) \<in> set db' \<longrightarrow> (n, p) \<in> set db \<or> next_ptr s \<le> p)"
proof (induction cs arbitrary: db s)
  case Nil
  then show ?case by simp
next
  case (Cons c cs)
  from Cons.prems obtain k db1 s1 where it: "loader_iteration e ns c db s = Inr (k, db1, s1)"
    by (cases "loader_iteration e ns c db s") (auto split: prod.splits)
  note p = loader_iteration_ptr [OF it]
  show ?case
  proof (cases k)
    case (Some r')
    with Cons.prems it p show ?thesis by auto
  next
    case None
    with Cons.prems it have "zone_loader_thread e ns cs db1 s1 = Inr (r, db', s')"
      by simp
    from Cons.IH [OF this] p show ?thesis
      by (meson le_trans)
  qed
qed

lemma dt_unit_run_ptr:
  "dt_unit_run e ns n queue db s = Inr (db', s') \<Longrightarrow>
     (\<forall>k p. (k, p) \<in> set db' \<longrightarrow> (k, p) \<in> set db \<or> next_ptr s \<le> p)"
proof (induction n arbitrary: queue db s)
  case 0
  then show ?case by simp
next
  case (Suc n)
  from Suc.prems obtain r db1 s1
    where w: "zone_loader_thread e ns queue db s = Inr (r, db1, s1)"
      and rest: "dt_unit_run e ns n (zone_loader_left e ns queue db s) db1 s1 = Inr (db', s')"
    by (cases "zone_loader_thread e ns queue db s") (auto split: prod.splits)
  from Suc.IH [OF rest] zone_loader_thread_ptr [OF w] show ?case
    by (meson le_trans)
qed

text \<open>
  \<open>remove_zones\<close> leaves the old database as it is when no zone of the new database
  is, under its name, the zone of the old database.
\<close>

lemma remove_zones_iter_no_match:
  "(\<forall>n p. (n, p) \<in> set db_new \<longrightarrow> map_of db_old n \<noteq> Some p) \<Longrightarrow>
     remove_zones_iter db_new db_old = db_old"
  by (induction db_new arbitrary: db_old) (auto simp: knot_zonedb_find_def)

text \<open>
  In a heap where the zones of the live database have been allocated (their pointers are
  below the allocation pointer), every successful reload hands back the whole live
  database: no entry is ever removed from it.
\<close>

lemma reload_hands_back_whole_database:
  assumes r: "zones_update_db_from_config e (Some cf) (Some n) db_old s
                = Inr (KNOT_EOK, ns', db_old', s')"
    and live: "zone_db n = Some live"
    and alloc: "\<forall>k p. (k, p) \<in> set live \<longrightarrow> p < next_ptr s"
  shows "db_old' = Some live"
proof -
  from r live obtain db_new s1 where ld: "load_zonedb e n cf s = Inr (Some db_new, s1)"
    and out: "db_old' = Some (snd (remove_zones db_new live))"
    by (auto simp: zones_update_db_from_config_def Let_def
             split: sum.splits option.splits if_splits)
  have fresh: "\<forall>k p. (k, p) \<in> set db_new \<longrightarrow> next_ptr s \<le> p"
  proof (cases "db_new = []")
    case True
    then show ?thesis by simp
  next
    case False
    with ld have "dt_unit_run e n (min (zones_count cf) (dt_optimal_size e)) (zones cf) [] s
                    = Inr (db_new, s1)"
      by (auto simp: load_zonedb_def Let_def split: if_splits sum.splits)
    from dt_unit_run_ptr [OF this] show ?thesis by simp
  qed
  have "\<forall>k p. (k, p) \<in> set db_new \<longrightarrow> map_of live k \<noteq> Some p"
  proof (intro allI impI notI)
    fix k p
    assume "(k, p) \<in> set db_new" and "map_of live k = Some p"
    with fresh alloc map_of_SomeD [of live k p] show False
      by fastforce
  qed
  from remove_zones_iter_no_match [OF this] out show ?thesis
    by (simp add: remove_zones_def)
qed

text \<open>
  \<open>preserve_zone\<close> leaves the old zone as it is: afterwards the old and the new zone
  reference the same contents, whose back pointer is the new zone, and the new zone has
  no recorded modification time or serial.
\<close>

lemma preserve_zone_shares_contents:
  assumes "preserve_zone e conf p s = Inr (Some z, s')" and "p \<noteq> z"
  shows "zone_heap s' p = zone_heap s p \<and>
         (\<exists>oz nz c cc. zone_heap s' p = Some oz \<and> zone_heap s' z = Some nz \<and>
            contents oz = Some c \<and> contents nz = Some c \<and>
            contents_heap s' c = Some cc \<and> c_zone cc = Some z \<and>
            zonefile_mtime nz = 0 \<and> zonefile_serial nz = 0)"
  using assms
  by (auto simp: preserve_zone_def zone_new_def split: prod.splits option.splits if_splits)

text \<open>A zone without recorded modification time is current only for a file of time 0.\<close>

lemma unrecorded_mtime_not_current:
  "zonefile_mtime nz = 0 \<Longrightarrow> stat e f = Some mt \<Longrightarrow> mt \<noteq> 0 \<Longrightarrow>
     zone_file_status e (Some nz) f = ZONE_STATUS_FOUND_UPDATED"
  by (simp add: zone_file_status_def)

text \<open>
  A worker that returns early leaves the rest of the list to the other workers: with two
  workers the zone \<open>a\<close> behind the unconvertible name is loaded, with a single worker
  it is not.
\<close>

lemma early_return_leaves_the_rest_to_the_other_workers:
  "reload_view (zones_update_db_from_config env_badname (Some conf_bad_a) (Some ns_demo) None heap_demo)
     = Inr (KNOT_EOK, Some [(''a'', 5)], Some [(''a'', 1), (''b'', 3)]) \<and>
   reload_view (zones_update_db_from_config (env_badname\<lparr>dt_optimal_size := 1\<rparr>)
                  (Some conf_bad_a) (Some ns_demo) None heap_demo)
     = Inr (KNOT_EOK, Some [], Some [(''a'', 1), (''b'', 3)])"
  by (simp add: reload_defs model_defs demo_defs env_badname_def conf_bad_a_def)

section \<open>Reused contents across the database switch\<close>

text \<open>
  Claim C1.  The claim wants the old zone's reference to reused contents cleared before
  the old zone is freed, so that no two live zones reference the same contents.  The code
  does not do it: after a reload that preserves the zone \<open>a\<close>, the old zone (pointer
  1) is still in the database handed back for deletion and still references contents 2,
  which the new zone (pointer 5) in the live database references as well; only the back
  pointer of the contents has moved.
\<close>

theorem preserved_zone_leaves_old_reference:
  "reload_view (zones_update_db_from_config env_demo (Some conf_only_a) (Some ns_demo) None heap_demo)
     = Inr (KNOT_EOK, Some [(''a'', 5)], Some [(''a'', 1), (''b'', 3)]) \<and>
   reload_zone (zones_update_db_from_config env_demo (Some conf_only_a) (Some ns_demo) None heap_demo) 1
     = Some \<lparr>name = ''a'', contents = Some 2, zonefile_mtime = 100, zonefile_serial = 1,
             server = Some 0\<rparr> \<and>
   reload_zone (zones_update_db_from_config env_demo (Some conf_only_a) (Some ns_demo) None heap_demo) 5
     = Some \<lparr>name = ''a'', contents = Some 2, zonefile_mtime = 0, zonefile_serial = 0,
             server = Some 0\<rparr> \<and>
   reload_contents (zones_update_db_from_config env_demo (Some conf_only_a) (Some ns_demo) None heap_demo) 2
     = Some \<lparr>c_zone = Some 5, c_serial = 1, c_signed = False, c_nsec3param = KNOT_EOK\<rparr>"
  by (simp add: reload_defs model_defs demo_defs conf_only_a_def)

text \<open>
  Claim C2.  The claim wants the entry of every preserved zone removed from the old
  database.  \<open>remove_zones\<close> removes an entry only when old and new database hold
  the same pointer, and \<open>preserve_zone\<close> always allocates a new zone: with \<open>a\<close>
  preserved, \<open>b\<close> reloaded and \<open>c\<close> bootstrapped, the old database handed back
  still holds \<open>a\<close> and \<open>b\<close>.  Had the new database held the old pointer of
  \<open>a\<close>, its entry would have been removed.
\<close>

theorem remove_zones_keeps_preserved_zone:
  "reload_view (zones_update_db_from_config env_demo (Some conf_demo) (Some ns_demo) None heap_demo)
     = Inr (KNOT_EOK, Some [(''a'', 5), (''b'', 6), (''c'', 8)], Some [(''a'', 1), (''b'', 3)]) \<and>
   remove_zones [(''a'', 5), (''b'', 6), (''c'', 8)] [(''a'', 1), (''b'', 3)]
     = (KNOT_EOK, [(''a'', 1), (''b'', 3)]) \<and>
   remove_zones [(''a'', 1), (''b'', 6)] [(''a'', 1), (''b'', 3)] = (KNOT_EOK, [(''b'', 3)])"
  by (simp add: reload_defs model_defs demo_defs)

text \<open>
  Claim C9.  The claim wants two reloads with an unchanged file to classify the zone as
  current both times and to keep the contents.  The first reload does (status
  \<open>FOUND_CURRENT\<close>, contents 2 reused), but \<open>preserve_zone\<close> does not carry the
  recorded modification time over to the new zone, so the second reload compares the
  time of the file with 0, classifies the zone as updated and parses the file again: the
  zone of the second new database has contents 7.
\<close>

theorem second_reload_reparses:
  "zone_file_status env_demo (zone_heap heap_demo 1) ''a.zone'' = ZONE_STATUS_FOUND_CURRENT \<and>
   reload_view (zones_update_db_from_config env_demo (Some conf_only_a) (Some ns_demo) None heap_demo)
     = Inr (KNOT_EOK, Some [(''a'', 5)], Some [(''a'', 1), (''b'', 3)]) \<and>
   reload_zone (zones_update_db_from_config env_demo (Some conf_only_a) (Some ns_demo) None heap_demo) 5
     = Some \<lparr>name = ''a'', contents = Some 2, zonefile_mtime = 0, zonefile_serial = 0,
             server = Some 0\<rparr> \<and>
   zone_file_status env_demo
     (reload_zone (zones_update_db_from_config env_demo (Some conf_only_a) (Some ns_demo) None heap_demo) 5)
     ''a.zone'' = ZONE_STATUS_FOUND_UPDATED \<and>
   reload_view (reload_twice env_demo conf_only_a ns_demo heap_demo)
     = Inr (KNOT_EOK, Some [(''a'', 6)], Some [(''a'', 5)]) \<and>
   reload_zone (reload_twice env_demo conf_only_a ns_demo heap_demo) 6
     = Some \<lparr>name = ''a'', contents = Some 7, zonefile_mtime = 100, zonefile_serial = 7,
             server = Some 0\<rparr>"
  by (simp add: reload_twice_def reload_defs model_defs demo_defs conf_only_a_def)

end
